theory Spec2Isabelle
  imports Complex_Main "HOL-Library.Product_Lexorder"
begin

section \<open>Common values\<close>

text \<open>
  Python exceptions that the modelled functions can raise.  A function that can raise
  returns \<open>py_error + 'a\<close>, with \<open>Inl\<close> for the exception.
\<close>

datatype py_error =
    ZeroDivisionError
  | IndexError
  | AttributeError
  | StorageError string
  | LLMError string
  | OtherError string

text \<open>
  Confidence levels are plain Python strings in the source, so they are strings here.
  \<open>conf_rank\<close> orders the three documented levels; any other string ranks lowest.
\<close>

definition conf_rank :: "string \<Rightarrow> nat" where
  "conf_rank c = (if c = ''strong'' then 2 else if c = ''medium'' then 1 else 0)"


section \<open>Python strings and regular expressions\<close>

text \<open>
  A Python \<^verbatim>\<open>str\<close> is modelled as a \<open>string\<close>, one \<open>char\<close> per character.  The
  characters are ASCII; the few non-ASCII characters of the source's literals stand as the
  single characters named below, and no character class treats them as a letter, a digit
  or white space.
\<close>

definition ellipsis :: char where "ellipsis = CHR 0x85"
definition rsquo :: char where "rsquo = CHR 0x92"
definition en_dash :: char where "en_dash = CHR 0x96"
definition em_dash :: char where "em_dash = CHR 0x97"
definition newline :: char where "newline = CHR 0x0A"

definition digit_chars :: string where "digit_chars = ''0123456789''"
definition lower_chars :: string where "lower_chars = ''abcdefghijklmnopqrstuvwxyz''"
definition upper_chars :: string where "upper_chars = ''ABCDEFGHIJKLMNOPQRSTUVWXYZ''"

definition space_chars :: string where
  "space_chars = [CHR '' '', CHR 0x09, CHR 0x0A, CHR 0x0B, CHR 0x0C, CHR 0x0D,
                  CHR 0x1C, CHR 0x1D, CHR 0x1E, CHR 0x1F]"

definition linebreak_chars :: string where
  "linebreak_chars = [CHR 0x0A, CHR 0x0B, CHR 0x0C, CHR 0x0D, CHR 0x1C, CHR 0x1D, CHR 0x1E]"

definition is_digit :: "char \<Rightarrow> bool" where
  "is_digit c = (c \<in> set digit_chars)"

definition is_alpha :: "char \<Rightarrow> bool" where
  "is_alpha c = (c \<in> set lower_chars \<or> c \<in> set upper_chars)"

definition is_space :: "char \<Rightarrow> bool" where
  "is_space c = (c \<in> set space_chars)"

definition is_word :: "char \<Rightarrow> bool" where
  "is_word c = (is_alpha c \<or> is_digit c \<or> c = CHR ''_'')"

definition lower_char :: "char \<Rightarrow> char" where
  "lower_char c = (case map_of (zip upper_chars lower_chars) c of Some d \<Rightarrow> d | None \<Rightarrow> c)"

definition upper_char :: "char \<Rightarrow> char" where
  "upper_char c = (case map_of (zip lower_chars upper_chars) c of Some d \<Rightarrow> d | None \<Rightarrow> c)"

definition lower :: "string \<Rightarrow> string" where
  "lower s = map lower_char s"

definition upper :: "string \<Rightarrow> string" where
  "upper s = map upper_char s"

text \<open>\<^verbatim>\<open>s.strip()\<close>, \<^verbatim>\<open>s.rstrip()\<close> and \<^verbatim>\<open>s.strip(chars)\<close>.\<close>

definition rstrip :: "string \<Rightarrow> string" where
  "rstrip s = rev (dropWhile is_space (rev s))"

definition strip :: "string \<Rightarrow> string" where
  "strip s = rstrip (dropWhile is_space s)"

definition strip_chars :: "string \<Rightarrow> string \<Rightarrow> string" where
  "strip_chars cs s = rev (dropWhile (\<lambda>c. c \<in> set cs) (rev (dropWhile (\<lambda>c. c \<in> set cs) s)))"

text \<open>\<^verbatim>\<open>s.startswith(p)\<close>, \<^verbatim>\<open>s.endswith(p)\<close> and \<^verbatim>\<open>p in s\<close>.\<close>

fun startswith :: "string \<Rightarrow> string \<Rightarrow> bool" where
  "startswith s [] = True"
| "startswith [] (p # ps) = False"
| "startswith (c # cs) (p # ps) = (c = p \<and> startswith cs ps)"

definition endswith :: "string \<Rightarrow> string \<Rightarrow> bool" where
  "endswith s p = startswith (rev s) (rev p)"

fun contains :: "string \<Rightarrow> string \<Rightarrow> bool" where
  "contains [] p = (p = [])"
| "contains (c # cs) p = (startswith (c # cs) p \<or> contains cs p)"

text \<open>\<^verbatim>\<open>s.count(p)\<close> for a non-empty \<open>p\<close>: non-overlapping occurrences from the left.\<close>

fun count_from :: "nat \<Rightarrow> string \<Rightarrow> string \<Rightarrow> nat" where
  "count_from skip [] p = 0"
| "count_from skip (c # cs) p =
     (if 0 < skip then count_from (skip - 1) cs p
      else if startswith (c # cs) p then Suc (count_from (length p - 1) cs p)
      else count_from 0 cs p)"

definition count_sub :: "string \<Rightarrow> string \<Rightarrow> nat" where
  "count_sub s p = count_from 0 s p"

text \<open>\<^verbatim>\<open>s.replace(c, new)\<close> for a one-character \<open>c\<close>, and \<^verbatim>\<open>sep.join(xs)\<close>.\<close>

definition replace_char :: "char \<Rightarrow> string \<Rightarrow> string \<Rightarrow> string" where
  "replace_char c new s = concat (map (\<lambda>x. if x = c then new else [x]) s)"

fun join :: "string \<Rightarrow> string list \<Rightarrow> string" where
  "join sep [] = []"
| "join sep [x] = x"
| "join sep (x # y # ys) = x @ sep @ join sep (y # ys)"

text \<open>
  \<^verbatim>\<open>s.splitlines()\<close>: lines without their line breaks; \<^verbatim>\<open>\r\n\<close> is one break, and a
  final break opens no empty last line.
\<close>

fun splitlines_from :: "string \<Rightarrow> string \<Rightarrow> string list" where
  "splitlines_from acc [] = (if acc = [] then [] else [rev acc])"
| "splitlines_from acc [c] = (if c \<in> set linebreak_chars then [rev acc] else [rev (c # acc)])"
| "splitlines_from acc (c # d # cs) =
     (if c = CHR 0x0D \<and> d = CHR 0x0A then rev acc # splitlines_from [] cs
      else if c \<in> set linebreak_chars then rev acc # splitlines_from [] (d # cs)
      else splitlines_from (c # acc) (d # cs))"

definition splitlines :: "string \<Rightarrow> string list" where
  "splitlines s = splitlines_from [] s"

text \<open>\<^verbatim>\<open>s.split()\<close>: the maximal runs of characters that are not white space.\<close>

fun split_ws_from :: "string \<Rightarrow> string \<Rightarrow> string list" where
  "split_ws_from acc [] = (if acc = [] then [] else [rev acc])"
| "split_ws_from acc (c # cs) =
     (if is_space c then (if acc = [] then split_ws_from [] cs else rev acc # split_ws_from [] cs)
      else split_ws_from (c # acc) cs)"

definition split_ws :: "string \<Rightarrow> string list" where
  "split_ws s = split_ws_from [] s"

text \<open>
  \<^verbatim>\<open>xs[:k]\<close> for a Python integer \<open>k\<close>: a negative \<open>k\<close> counts from the end.
\<close>

definition py_take :: "int \<Rightarrow> 'a list \<Rightarrow> 'a list" where
  "py_take k xs = (if 0 \<le> k then take (nat k) xs else take (nat (int (length xs) + k)) xs)"

text \<open>\<^verbatim>\<open>str(n)\<close> for an integer.\<close>

fun str_nat :: "nat \<Rightarrow> string" where
  "str_nat n = (if n < 10 then [digit_chars ! n] else str_nat (n div 10) @ [digit_chars ! (n mod 10)])"

declare str_nat.simps [simp del]

definition str_int :: "int \<Rightarrow> string" where
  "str_int i = (if i < 0 then CHR ''-'' # str_nat (nat (- i)) else str_nat (nat i))"

subsection \<open>Regular expressions\<close>

text \<open>
  The patterns of Python's \<^verbatim>\<open>re\<close> that the source uses, as a datatype, and a backtracking
  matcher that lists the possible ends of a match in the order in which \<^verbatim>\<open>re\<close> tries
  them: the left alternative first, a greedy repetition longest first, a lazy one
  shortest first.  The first entry of the list is the match \<^verbatim>\<open>re\<close> reports.
\<close>

datatype cls = CChars string | CDigit | CSpace | CWord

datatype rx =
    Lit char
  | Dot
  | Set bool "cls list"
  | Seq rx rx
  | Alt rx rx
  | Rep nat "nat option" bool rx
  | Grp nat rx
  | WordB
  | Bol
  | Eol
  | Eps

text \<open>
  A matcher state: the character before the position, the text from the position on, the
  position, and the groups captured so far (the latest capture of a group first).
\<close>

record mstate =
  m_prev :: "char option"
  m_rest :: string
  m_pos :: nat
  m_caps :: "(nat \<times> string) list"

text \<open>The flags \<^verbatim>\<open>re.I\<close> and \<^verbatim>\<open>re.M\<close>.\<close>

record rflags =
  f_icase :: bool
  f_multiline :: bool

definition no_flags :: rflags where
  "no_flags = \<lparr>f_icase = False, f_multiline = False\<rparr>"

definition icase :: rflags where
  "icase = \<lparr>f_icase = True, f_multiline = False\<rparr>"

definition multiline :: rflags where
  "multiline = \<lparr>f_icase = False, f_multiline = True\<rparr>"

definition icase_multiline :: rflags where
  "icase_multiline = \<lparr>f_icase = True, f_multiline = True\<rparr>"

definition cls_has :: "bool \<Rightarrow> cls \<Rightarrow> char \<Rightarrow> bool" where
  "cls_has ic k c =
     (case k of
        CChars cs \<Rightarrow> c \<in> set cs \<or> (ic \<and> (lower_char c \<in> set cs \<or> upper_char c \<in> set cs))
      | CDigit \<Rightarrow> is_digit c
      | CSpace \<Rightarrow> is_space c
      | CWord \<Rightarrow> is_word c)"

definition step_char :: "(char \<Rightarrow> bool) \<Rightarrow> mstate \<Rightarrow> mstate list" where
  "step_char p st =
     (case m_rest st of
        [] \<Rightarrow> []
      | c # cs \<Rightarrow>
          if p c then [st\<lparr>m_prev := Some c, m_rest := cs, m_pos := Suc (m_pos st)\<rparr>] else [])"

definition at_word_boundary :: "mstate \<Rightarrow> bool" where
  "at_word_boundary st =
     ((case m_prev st of None \<Rightarrow> False | Some c \<Rightarrow> is_word c) \<noteq>
      (case m_rest st of [] \<Rightarrow> False | c # _ \<Rightarrow> is_word c))"

definition at_bol :: "bool \<Rightarrow> mstate \<Rightarrow> bool" where
  "at_bol ml st = (case m_prev st of None \<Rightarrow> True | Some c \<Rightarrow> ml \<and> c = CHR 0x0A)"

definition at_eol :: "bool \<Rightarrow> mstate \<Rightarrow> bool" where
  "at_eol ml st =
     (case m_rest st of
        [] \<Rightarrow> True
      | c # cs \<Rightarrow> c = CHR 0x0A \<and> (ml \<or> cs = []))"

fun dec_max :: "nat option \<Rightarrow> nat option" where
  "dec_max None = None"
| "dec_max (Some n) = Some (n - 1)"

text \<open>
  Repetition between \<open>lo\<close> and \<open>hi\<close> times.  Each round beyond the required ones must
  consume a character, so the fuel \<open>length rest + lo + 1\<close> given below is never used up.
\<close>

fun rep :: "(mstate \<Rightarrow> mstate list) \<Rightarrow> nat \<Rightarrow> nat \<Rightarrow> nat option \<Rightarrow> bool \<Rightarrow> mstate \<Rightarrow> mstate list" where
  "rep f 0 lo hi greedy st = (if lo = 0 then [st] else [])"
| "rep f (Suc fuel) lo hi greedy st =
     (let more = (if hi = Some 0 then []
                  else concat (map (rep f fuel (lo - 1) (dec_max hi) greedy)
                         (filter (\<lambda>st'. 0 < lo \<or> m_pos st < m_pos st') (f st))));
          stop = (if lo = 0 then [st] else [])
      in if greedy then more @ stop else stop @ more)"

primrec rx_run :: "rx \<Rightarrow> rflags \<Rightarrow> mstate \<Rightarrow> mstate list" where
  "rx_run (Lit c) fl = step_char (\<lambda>x. x = c \<or> (f_icase fl \<and> lower_char x = lower_char c))"
| "rx_run Dot fl = step_char (\<lambda>x. x \<noteq> CHR 0x0A)"
| "rx_run (Set pos ks) fl = step_char (\<lambda>x. (\<exists>k \<in> set ks. cls_has (f_icase fl) k x) = pos)"
| "rx_run (Seq a b) fl = (\<lambda>st. concat (map (rx_run b fl) (rx_run a fl st)))"
| "rx_run (Alt a b) fl = (\<lambda>st. rx_run a fl st @ rx_run b fl st)"
| "rx_run (Rep lo hi greedy r) fl =
     (\<lambda>st. rep (rx_run r fl) (length (m_rest st) + lo + 1) lo hi greedy st)"
| "rx_run (Grp n r) fl =
     (\<lambda>st. map (\<lambda>st'. st'\<lparr>m_caps := (n, take (m_pos st' - m_pos st) (m_rest st)) # m_caps st'\<rparr>)
            (rx_run r fl st))"
| "rx_run WordB fl = (\<lambda>st. if at_word_boundary st then [st] else [])"
| "rx_run Bol fl = (\<lambda>st. if at_bol (f_multiline fl) st then [st] else [])"
| "rx_run Eol fl = (\<lambda>st. if at_eol (f_multiline fl) st then [st] else [])"
| "rx_run Eps fl = (\<lambda>st. [st])"

text \<open>A match object: its span, its text (group 0) and its groups.\<close>

record rmatch =
  r_start :: nat
  r_end :: nat
  r_text :: string
  r_groups :: "(nat \<times> string) list"

definition group :: "rmatch \<Rightarrow> nat \<Rightarrow> string option" where
  "group m n = (if n = 0 then Some (r_text m) else map_of (r_groups m) n)"

definition rx_at :: "rx \<Rightarrow> rflags \<Rightarrow> char option \<Rightarrow> string \<Rightarrow> nat \<Rightarrow> mstate option" where
  "rx_at r fl prev rest pos =
     (case rx_run r fl \<lparr>m_prev = prev, m_rest = rest, m_pos = pos, m_caps = []\<rparr> of
        [] \<Rightarrow> None
      | st # _ \<Rightarrow> Some st)"

definition mk_match :: "string \<Rightarrow> nat \<Rightarrow> mstate \<Rightarrow> rmatch" where
  "mk_match rest pos st =
     \<lparr>r_start = pos, r_end = m_pos st, r_text = take (m_pos st - pos) rest,
      r_groups = m_caps st\<rparr>"

text \<open>The leftmost match at or after a position (\<^verbatim>\<open>re.search\<close> scans this way).\<close>

fun rx_scan :: "rx \<Rightarrow> rflags \<Rightarrow> char option \<Rightarrow> string \<Rightarrow> nat \<Rightarrow> (rmatch \<times> mstate) option" where
  "rx_scan r fl prev [] pos =
     (case rx_at r fl prev [] pos of
        Some st \<Rightarrow> Some (mk_match [] pos st, st)
      | None \<Rightarrow> None)"
| "rx_scan r fl prev (c # cs) pos =
     (case rx_at r fl prev (c # cs) pos of
        Some st \<Rightarrow> Some (mk_match (c # cs) pos st, st)
      | None \<Rightarrow> rx_scan r fl (Some c) cs (Suc pos))"

definition re_search :: "rx \<Rightarrow> rflags \<Rightarrow> string \<Rightarrow> rmatch option" where
  "re_search r fl s = map_option fst (rx_scan r fl None s 0)"

definition re_match :: "rx \<Rightarrow> rflags \<Rightarrow> string \<Rightarrow> rmatch option" where
  "re_match r fl s = map_option (mk_match s 0) (rx_at r fl None s 0)"

definition re_fullmatch :: "rx \<Rightarrow> rflags \<Rightarrow> string \<Rightarrow> rmatch option" where
  "re_fullmatch r fl s =
     (case filter (\<lambda>st. m_rest st = [])
             (rx_run r fl \<lparr>m_prev = None, m_rest = s, m_pos = 0, m_caps = []\<rparr>) of
        [] \<Rightarrow> None
      | st # _ \<Rightarrow> Some (mk_match s 0 st))"

text \<open>
  \<^verbatim>\<open>re.finditer\<close>: the successive non-overlapping matches from the left.  After an empty
  match the scan moves on by one character.  A scan makes at most one match per position,
  so the fuel \<open>Suc (length s)\<close> is never used up.
\<close>

fun rx_iter :: "nat \<Rightarrow> rx \<Rightarrow> rflags \<Rightarrow> char option \<Rightarrow> string \<Rightarrow> nat \<Rightarrow> rmatch list" where
  "rx_iter 0 r fl prev rest pos = []"
| "rx_iter (Suc fuel) r fl prev rest pos =
     (case rx_scan r fl prev rest pos of
        None \<Rightarrow> []
      | Some (m, st) \<Rightarrow>
          m # (if r_start m < r_end m
               then rx_iter fuel r fl (m_prev st) (m_rest st) (m_pos st)
               else (case m_rest st of
                       [] \<Rightarrow> []
                     | c # cs \<Rightarrow> rx_iter fuel r fl (Some c) cs (Suc (m_pos st)))))"

definition re_finditer :: "rx \<Rightarrow> rflags \<Rightarrow> string \<Rightarrow> rmatch list" where
  "re_finditer r fl s = rx_iter (Suc (length s)) r fl None s 0"

text \<open>\<^verbatim>\<open>re.findall\<close> for a pattern without groups, and \<^verbatim>\<open>re.sub\<close>.\<close>

definition re_findall :: "rx \<Rightarrow> rflags \<Rightarrow> string \<Rightarrow> string list" where
  "re_findall r fl s = map r_text (re_finditer r fl s)"

fun splice :: "string \<Rightarrow> nat \<Rightarrow> rmatch list \<Rightarrow> (rmatch \<Rightarrow> string) \<Rightarrow> string" where
  "splice s cur [] f = drop cur s"
| "splice s cur (m # ms) f =
     take (r_start m - cur) (drop cur s) @ f m @ splice s (r_end m) ms f"

definition re_sub :: "rx \<Rightarrow> rflags \<Rightarrow> (rmatch \<Rightarrow> string) \<Rightarrow> string \<Rightarrow> string" where
  "re_sub r fl f s = splice s 0 (re_finditer r fl s) f"

text \<open>Shorthands for writing patterns.\<close>

abbreviation Some1 :: "rx \<Rightarrow> rx" where "Some1 r \<equiv> Rep 1 None True r"
abbreviation Any0 :: "rx \<Rightarrow> rx" where "Any0 r \<equiv> Rep 0 None True r"
abbreviation Lazy0 :: "rx \<Rightarrow> rx" where "Lazy0 r \<equiv> Rep 0 None False r"
abbreviation Maybe :: "rx \<Rightarrow> rx" where "Maybe r \<equiv> Rep 0 (Some 1) True r"
abbreviation Times :: "nat \<Rightarrow> rx \<Rightarrow> rx" where "Times n r \<equiv> Rep n (Some n) True r"
abbreviation Between :: "nat \<Rightarrow> nat \<Rightarrow> rx \<Rightarrow> rx" where "Between lo hi r \<equiv> Rep lo (Some hi) True r"
abbreviation AtLeast :: "nat \<Rightarrow> rx \<Rightarrow> rx" where "AtLeast n r \<equiv> Rep n None True r"
abbreviation Digit :: rx where "Digit \<equiv> Set True [CDigit]"
abbreviation Space :: rx where "Space \<equiv> Set True [CSpace]"
abbreviation OneOf :: "string \<Rightarrow> rx" where "OneOf cs \<equiv> Set True [CChars cs]"
abbreviation AlNum :: rx where "AlNum \<equiv> Set True [CChars upper_chars, CChars lower_chars, CDigit]"

fun Lits :: "string \<Rightarrow> rx" where
  "Lits [] = Eps"
| "Lits [c] = Lit c"
| "Lits (c # d # cs) = Seq (Lit c) (Lits (d # cs))"

fun Seqs :: "rx list \<Rightarrow> rx" where
  "Seqs [] = Eps"
| "Seqs [r] = r"
| "Seqs (r # q # rs) = Seq r (Seqs (q # rs))"

fun Alts :: "rx list \<Rightarrow> rx" where
  "Alts [] = Set True []"
| "Alts [r] = r"
| "Alts (r # q # rs) = Alt r (Alts (q # rs))"

text \<open>The section number pattern \<^verbatim>\<open>\d{3}\.\d{2}(?:\.\d{2})?\<close>, used throughout.\<close>

definition section_dot_rx :: rx where
  "section_dot_rx =
     Seqs [Times 3 Digit, Lit CHR ''.'', Times 2 Digit,
           Maybe (Seqs [Lit CHR ''.'', Times 2 Digit])]"


section \<open>Python floats\<close>

text \<open>
  A Python \<^verbatim>\<open>float\<close> is an IEEE 754 double.  The floats of the source that are modelled with
  their rounding are never negative; such a float is the pair \<open>(m, e)\<close> of integers that
  stands for \<open>m * 2 ^ e\<close>.  A literal and the result of an arithmetic operation are the exact
  value rounded to 53 significant bits, a tie going to the even significand.  The values
  of the source lie far within the normal range of a double, so overflow and subnormal
  numbers are not modelled.
\<close>

type_synonym double = "int \<times> int"

definition pow2 :: "int \<Rightarrow> real" where
  "pow2 e = (if 0 \<le> e then 2 ^ nat e else 1 / 2 ^ nat (- e))"

definition double_val :: "double \<Rightarrow> real" where
  "double_val x = of_int (fst x) * pow2 (snd x)"

text \<open>
  Scaling of a ratio \<open>n / d\<close> by powers of two until \<open>2 ^ 52 \<le> n / d < 2 ^ 53\<close>; \<open>e\<close> counts the
  powers.  The fuel covers ratios between \<open>2 ^ -140\<close> and \<open>2 ^ 250\<close>.
\<close>

fun scale :: "nat \<Rightarrow> int \<Rightarrow> int \<Rightarrow> int \<Rightarrow> int \<times> int \<times> int" where
  "scale 0 n d e = (n, d, e)"
| "scale (Suc fuel) n d e =
     (if n < d * 4503599627370496 then scale fuel (2 * n) d (e - 1)
      else if d * 9007199254740992 \<le> n then scale fuel n (2 * d) (e + 1)
      else (n, d, e))"

text \<open>The integer nearest to \<open>n / d\<close>, a tie going to the even one.\<close>

definition round_div :: "int \<Rightarrow> int \<Rightarrow> int" where
  "round_div n d =
     (let q = n div d; r = n mod d
      in if 2 * r < d then q
         else if d < 2 * r then q + 1
         else if even q then q else q + 1)"

text \<open>The double nearest to \<open>n / d\<close>, for \<open>0 \<le> n\<close> and \<open>0 < d\<close>.\<close>

definition double_of_ratio :: "int \<Rightarrow> int \<Rightarrow> double" where
  "double_of_ratio n d =
     (if n = 0 then (0, 0)
      else (case scale 200 n d 0 of (n', d', e) \<Rightarrow> (round_div n' d', e)))"

text \<open>\<^verbatim>\<open>a < b\<close>, \<^verbatim>\<open>a <= b\<close>, \<^verbatim>\<open>min(a, b)\<close> and \<^verbatim>\<open>a + b\<close> on floats.\<close>

definition dless :: "double \<Rightarrow> double \<Rightarrow> bool" where
  "dless a b =
     (let e = min (snd a) (snd b)
      in fst a * 2 ^ nat (snd a - e) < fst b * 2 ^ nat (snd b - e))"

definition dle :: "double \<Rightarrow> double \<Rightarrow> bool" where
  "dle a b = (\<not> dless b a)"

definition dmin :: "double \<Rightarrow> double \<Rightarrow> double" where
  "dmin a b = (if dless b a then b else a)"

definition dadd :: "double \<Rightarrow> double \<Rightarrow> double" where
  "dadd a b =
     (let e = min (snd a) (snd b)
      in case double_of_ratio (fst a * 2 ^ nat (snd a - e) + fst b * 2 ^ nat (snd b - e)) 1 of
           (m, e') \<Rightarrow> (m, e' + e))"

section \<open>Fusion and confidence (hybrid\_chunks.py)\<close>

subsection \<open>reciprocal\_rank\_fusion\<close>

text \<open>
  \<^verbatim>\<open>fused.get(key, 0.0)\<close>: the stored score, or zero for a key not yet present.
\<close>

definition fused_get :: "(int \<rightharpoonup> real) \<Rightarrow> int \<Rightarrow> real" where
  "fused_get fused key = (case fused key of None \<Rightarrow> 0 | Some v \<Rightarrow> v)"

text \<open>
  The inner loop \<^verbatim>\<open>for rank, key in enumerate(lst, start=1)\<close>, with the running rank
  as an argument.  \<^verbatim>\<open>1.0 / (k + rank)\<close> raises when the divisor is zero.
\<close>

fun rrf_inner :: "int \<Rightarrow> (int \<rightharpoonup> real) \<Rightarrow> int \<Rightarrow> int list \<Rightarrow> py_error + (int \<rightharpoonup> real)" where
  "rrf_inner k fused rank [] = Inr fused"
| "rrf_inner k fused rank (key # rest) =
     (if k + rank = 0 then Inl ZeroDivisionError
      else rrf_inner k (fused(key \<mapsto> fused_get fused key + 1 / real_of_int (k + rank)))
             (rank + 1) rest)"

text \<open>The outer loop \<^verbatim>\<open>for lst in ranked_lists\<close>.\<close>

fun rrf_outer :: "int \<Rightarrow> (int \<rightharpoonup> real) \<Rightarrow> int list list \<Rightarrow> py_error + (int \<rightharpoonup> real)" where
  "rrf_outer k fused [] = Inr fused"
| "rrf_outer k fused (lst # rest) =
     (case rrf_inner k fused 1 lst of
        Inl e \<Rightarrow> Inl e
      | Inr fused' \<Rightarrow> rrf_outer k fused' rest)"

definition reciprocal_rank_fusion :: "int list list \<Rightarrow> int \<Rightarrow> py_error + (int \<rightharpoonup> real)" where
  "reciprocal_rank_fusion ranked_lists k = rrf_outer k Map.empty ranked_lists"

text \<open>
  The specification's reading of the fused score: the 1-based position of an item in a
  list, and the sum of \<open>1 / (60 + rank)\<close> over the lists that contain the item.
\<close>

fun rank_in :: "int \<Rightarrow> int list \<Rightarrow> nat" where
  "rank_in key [] = 1"
| "rank_in key (x # xs) = (if x = key then 1 else Suc (rank_in key xs))"

definition rrf_score_spec :: "int list list \<Rightarrow> int \<Rightarrow> real" where
  "rrf_score_spec ranked_lists key =
     (\<Sum>lst \<leftarrow> filter (\<lambda>lst. key \<in> set lst) ranked_lists. 1 / (60 + real (rank_in key lst)))"

text \<open>What one list adds to the score of a key, counting every occurrence.\<close>

fun contrib :: "int \<Rightarrow> int \<Rightarrow> int list \<Rightarrow> int \<Rightarrow> real" where
  "contrib k rank [] key = 0"
| "contrib k rank (x # xs) key =
     (if x = key then 1 / real_of_int (k + rank) else 0) + contrib k (rank + 1) xs key"

subsection \<open>compute\_confidence\<close>

definition compute_confidence :: "real \<Rightarrow> int \<Rightarrow> string" where
  "compute_confidence top_rrf overlap_top10 =
     (if top_rrf \<ge> 35 / 1000 \<and> overlap_top10 \<ge> 1 then ''strong''
      else if top_rrf \<ge> 2 / 100 then ''medium''
      else ''weak'')"

text \<open>
  The confidence step at the end of \<^verbatim>\<open>hybrid_chunks_search\<close>: the overlap of the two
  raw top-10 key lists, and the level of the top fused score (\<open>weak\<close> without results).
\<close>

definition overlap_top10 :: "int list \<Rightarrow> int list \<Rightarrow> int" where
  "overlap_top10 bm25_keys vec_keys =
     int (card (set (take 10 bm25_keys) \<inter> set (take 10 vec_keys)))"

definition search_confidence :: "real list \<Rightarrow> int list \<Rightarrow> int list \<Rightarrow> string" where
  "search_confidence result_scores bm25_keys vec_keys =
     (case result_scores of
        [] \<Rightarrow> ''weak''
      | top_score # _ \<Rightarrow> compute_confidence top_score (overlap_top10 bm25_keys vec_keys))"


section \<open>Chunk-level lexical search (bm25\_chunks.py)\<close>

text \<open>\<^verbatim>\<open>_WORD_RE = [A-Za-z0-9]+(?:[.\-/:][A-Za-z0-9]+)*\<close>\<close>

definition word_rx :: rx where
  "word_rx = Seq (Some1 AlNum) (Any0 (Seq (OneOf ''.-/:'') (Some1 AlNum)))"

definition tokenize :: "string \<Rightarrow> string list" where
  "tokenize text =
     concat (map (\<lambda>t. if CHR ''-'' \<in> set t \<or> CHR ''/'' \<in> set t
                      then [t, replace_char CHR ''/'' [] (replace_char CHR ''-'' [] t)]
                      else [t])
               (map lower (re_findall word_rx no_flags text)))"

text \<open>One entry of \<^verbatim>\<open>index.meta\<close>, as \<^verbatim>\<open>build_bm25_chunks_index\<close> stores it.\<close>

record chunk_meta =
  cm_chunk_id :: int
  cm_document_id :: int
  cm_filename :: string
  cm_display_name :: string
  cm_doc_type :: "string option"
  cm_mp_id :: "string option"
  cm_section_id :: "string option"
  cm_heading :: "string option"
  cm_page_start :: int
  cm_page_end :: int
  cm_chunk_kind :: "string option"
  cm_equation_score :: real
  cm_table_uid :: "string option"
  cm_table_label :: "string option"
  cm_table_row_index :: "int option"
  cm_text :: string

text \<open>
  The loaded index: the scoring function of the \<^verbatim>\<open>BM25Okapi\<close> object (an external
  library; \<^verbatim>\<open>get_scores\<close> gives one score per indexed chunk) and the metadata list.
\<close>

record bm25_index =
  idx_get_scores :: "string list \<Rightarrow> real list"
  idx_meta :: "chunk_meta list"

record bm25_chunk_hit =
  bh_score :: real
  bh_chunk_id :: int
  bh_document_id :: int
  bh_filename :: string
  bh_display_name :: string
  bh_doc_type :: "string option"
  bh_mp_id :: "string option"
  bh_section_id :: "string option"
  bh_heading :: "string option"
  bh_page_start :: int
  bh_page_end :: int
  bh_snippet :: string
  bh_chunk_kind :: "string option"
  bh_table_uid :: "string option"
  bh_table_label :: "string option"
  bh_table_row_index :: "int option"

text \<open>The scope predicate \<^verbatim>\<open>allowed(i)\<close>, on the metadata entry of \<open>i\<close>.\<close>

definition allowed :: "string \<Rightarrow> string list \<Rightarrow> real option \<Rightarrow> chunk_meta \<Rightarrow> bool" where
  "allowed scope mp_ids_norm min_equation_score m =
     (let doc_type = lower (case cm_doc_type m of None \<Rightarrow> [] | Some d \<Rightarrow> d);
          mp_id = (case cm_mp_id m of None \<Rightarrow> [] | Some x \<Rightarrow> x);
          eq_score = cm_equation_score m
      in if (case min_equation_score of None \<Rightarrow> False | Some thr \<Rightarrow> eq_score < thr) then False
         else if scope = ''all'' then True
         else if scope = ''standspec'' then doc_type = ''standspec''
         else if scope = ''scheduling'' then doc_type = ''scheduling''
         else if scope = ''mp'' then doc_type = ''mp''
         else if scope = ''mp_only'' then doc_type = ''mp'' \<and> upper mp_id \<in> set mp_ids_norm
         else True)"

text \<open>
  \<^verbatim>\<open>sorted(range(len(scores)), key=lambda i: scores[i], reverse=True)\<close>: a stable sort
  by descending score, so equal scores keep their index order.
\<close>

definition ranked_all :: "real list \<Rightarrow> nat list" where
  "ranked_all scores = sort_key (\<lambda>i. - (scores ! i)) [0..<length scores]"

definition bm25_snippet :: "string \<Rightarrow> string" where
  "bm25_snippet text =
     strip (replace_char newline '' '' (take 350 text)) @
     (if 350 < length text then [ellipsis] else [])"

definition bm25_hit :: "real \<Rightarrow> chunk_meta \<Rightarrow> bm25_chunk_hit" where
  "bm25_hit score m =
     \<lparr>bh_score = score, bh_chunk_id = cm_chunk_id m, bh_document_id = cm_document_id m,
      bh_filename = cm_filename m, bh_display_name = cm_display_name m,
      bh_doc_type = cm_doc_type m, bh_mp_id = cm_mp_id m, bh_section_id = cm_section_id m,
      bh_heading = cm_heading m, bh_page_start = cm_page_start m, bh_page_end = cm_page_end m,
      bh_snippet = bm25_snippet (cm_text m), bh_chunk_kind = cm_chunk_kind m,
      bh_table_uid = cm_table_uid m, bh_table_label = cm_table_label m,
      bh_table_row_index = cm_table_row_index m\<rparr>"

text \<open>
  \<^verbatim>\<open>bm25_chunks_search_filtered\<close>.  Loading the index can fail; \<^verbatim>\<open>index.meta[i]\<close> in
  \<^verbatim>\<open>allowed\<close> raises for a score position without metadata.
\<close>

definition bm25_chunks_search_filtered ::
  "(py_error + bm25_index) \<Rightarrow> string \<Rightarrow> int \<Rightarrow> string \<Rightarrow> string list option \<Rightarrow> real option \<Rightarrow>
   py_error + bm25_chunk_hit list" where
  "bm25_chunks_search_filtered loaded query k scope mp_ids min_equation_score =
     (case loaded of
        Inl e \<Rightarrow> Inl e
      | Inr index \<Rightarrow>
          (let scores = idx_get_scores index (tokenize query);
               meta = idx_meta index;
               mp_ids_norm = map upper (case mp_ids of None \<Rightarrow> [] | Some ms \<Rightarrow> ms);
               ok = (\<lambda>i. allowed scope mp_ids_norm min_equation_score (meta ! i));
               ranked = py_take k (filter (\<lambda>i. ok i \<and> 0 < scores ! i) (ranked_all scores));
               ranked' = (if ranked = [] then py_take k (filter ok (ranked_all scores))
                          else ranked)
           in if length meta < length scores then Inl IndexError
              else Inr (map (\<lambda>i. bm25_hit (scores ! i) (meta ! i)) ranked')))"

text \<open>
  A small index for concrete evaluation: three chunks, two of them in a Standard
  Specifications document, and a scorer that finds no query term in any of them.
\<close>

definition demo_meta :: "int \<Rightarrow> string \<Rightarrow> string \<Rightarrow> chunk_meta" where
  "demo_meta cid doc_type text =
     \<lparr>cm_chunk_id = cid, cm_document_id = 1, cm_filename = ''spec.pdf'',
      cm_display_name = ''Spec'', cm_doc_type = Some doc_type, cm_mp_id = None,
      cm_section_id = None, cm_heading = None, cm_page_start = 1, cm_page_end = 1,
      cm_chunk_kind = Some ''content'', cm_equation_score = 0, cm_table_uid = None,
      cm_table_label = None, cm_table_row_index = None, cm_text = text\<rparr>"

definition demo_index :: bm25_index where
  "demo_index =
     \<lparr>idx_get_scores = (\<lambda>_. [0, 0, - (1 / 2)]),
      idx_meta = [demo_meta 11 ''standspec'' ''asphalt'', demo_meta 12 ''mp'' ''bridge'',
                  demo_meta 13 ''standspec'' ''conduit'']\<rparr>"

section \<open>Segmentation (chunking.py)\<close>

text \<open>\<^verbatim>\<open>SECTION_RE = (?mi)^\s*SECTION\s+(\d{3})\b\<close>\<close>

definition SECTION_RE :: rx where
  "SECTION_RE = Seqs [Bol, Any0 Space, Lits ''SECTION'', Some1 Space, Grp 1 (Times 3 Digit), WordB]"

text \<open>
  \<^verbatim>\<open>SUBSECTION_HEADER_RE = (?m)^\s*(\d{3}\.\d{2}(?:\.\d{2})?)\s{2,}([A-Z][^\n]{2,})\s*$\<close>
\<close>

definition SUBSECTION_HEADER_RE :: rx where
  "SUBSECTION_HEADER_RE =
     Seqs [Bol, Any0 Space, Grp 1 section_dot_rx, AtLeast 2 Space,
           Grp 2 (Seq (OneOf upper_chars) (AtLeast 2 (Set False [CChars [newline]]))),
           Any0 Space, Eol]"

record py_chunk =
  c_section_id :: "string option"
  c_heading :: "string option"
  c_page_start :: int
  c_page_end :: int
  c_text :: string

record page_segment =
  s_section_id :: "string option"
  s_heading :: "string option"
  s_text :: string

text \<open>
  \<^verbatim>\<open>_section_heading_line\<close>; the marker is the three digits that \<open>SECTION_RE\<close> captured, so
  \<^verbatim>\<open>re.escape\<close> leaves it as it is.
\<close>

definition section_heading_line :: "string \<Rightarrow> string \<Rightarrow> string option" where
  "section_heading_line text marker =
     (if text = [] then None
      else (case filter (\<lambda>line. re_search (Seqs [WordB, Lits ''SECTION'', Some1 Space, Lits marker, WordB])
                               icase line \<noteq> None)
                  (splitlines text) of
              line # _ \<Rightarrow> Some (take 200 (strip line))
            | [] \<Rightarrow> Some (take 200 (''SECTION '' @ marker))))"

text \<open>
  The text of the segment that starts at match \<open>m\<close> and runs to the next match (or to the
  end of the page); the first segment takes the preamble when it has 40 characters or more.
\<close>

definition segment_text :: "string \<Rightarrow> string \<Rightarrow> bool \<Rightarrow> rmatch \<Rightarrow> rmatch list \<Rightarrow> string" where
  "segment_text text preamble first m ms =
     (let start = r_start m;
          stop = (case ms of [] \<Rightarrow> length text | m' # _ \<Rightarrow> r_start m');
          seg_text = strip (take (stop - start) (drop start text))
      in if first \<and> 40 \<le> length preamble then preamble @ [newline] @ seg_text else seg_text)"

fun subsection_segments :: "string \<Rightarrow> string \<Rightarrow> bool \<Rightarrow> rmatch list \<Rightarrow> page_segment list" where
  "subsection_segments text preamble first [] = []"
| "subsection_segments text preamble first (m # ms) =
     \<lparr>s_section_id = group m 1, s_heading = Some (take 200 (strip (r_text m))),
      s_text = segment_text text preamble first m ms\<rparr>
     # subsection_segments text preamble False ms"

fun section_segments :: "string \<Rightarrow> string \<Rightarrow> bool \<Rightarrow> rmatch list \<Rightarrow> page_segment list" where
  "section_segments text preamble first [] = []"
| "section_segments text preamble first (m # ms) =
     (let seg_text = segment_text text preamble first m ms
      in \<lparr>s_section_id = group m 1,
          s_heading = section_heading_line seg_text (case group m 1 of None \<Rightarrow> [] | Some g \<Rightarrow> g),
          s_text = seg_text\<rparr>
         # section_segments text preamble False ms)"

definition split_page_into_segments :: "string \<Rightarrow> page_segment list" where
  "split_page_into_segments text =
     (if text = [] then [\<lparr>s_section_id = None, s_heading = None, s_text = []\<rparr>]
      else (case re_finditer SUBSECTION_HEADER_RE multiline text of
              m # ms \<Rightarrow> subsection_segments text (strip (take (r_start m) text)) True (m # ms)
            | [] \<Rightarrow>
                (case re_finditer SECTION_RE icase_multiline text of
                   m # ms \<Rightarrow> section_segments text (strip (take (r_start m) text)) True (m # ms)
                 | [] \<Rightarrow> [\<lparr>s_section_id = None, s_heading = None, s_text = strip text\<rparr>])))"

text \<open>The local variables of \<^verbatim>\<open>chunk_document_pages\<close>, threaded through its loops.\<close>

record chunker =
  ck_chunks :: "py_chunk list"
  ck_section :: "string option"
  ck_heading :: "string option"
  ck_start :: "int option"
  ck_end :: "int option"
  ck_buf :: "string list"

definition chunker_init :: chunker where
  "chunker_init =
     \<lparr>ck_chunks = [], ck_section = None, ck_heading = None, ck_start = None, ck_end = None,
      ck_buf = []\<rparr>"

text \<open>
  \<^verbatim>\<open>flush()\<close>: without a start, an end or a buffer it returns at once; otherwise it
  appends a chunk when the joined text is not empty, and resets the variables either way.
\<close>

definition flush :: "chunker \<Rightarrow> chunker" where
  "flush st =
     (case (ck_start st, ck_end st) of
        (Some s, Some e) \<Rightarrow>
          if ck_buf st = [] then st
          else (let text = strip (join [newline] (ck_buf st))
                in \<lparr>ck_chunks =
                      (if text \<noteq> []
                       then ck_chunks st @
                            [\<lparr>c_section_id = ck_section st, c_heading = ck_heading st,
                              c_page_start = s, c_page_end = e, c_text = text\<rparr>]
                       else ck_chunks st),
                    ck_section = None, ck_heading = None, ck_start = None, ck_end = None,
                    ck_buf = []\<rparr>)
      | _ \<Rightarrow> st)"

text \<open>The body of the inner loop \<^verbatim>\<open>for seg in segments\<close>.\<close>

definition add_segment :: "int \<Rightarrow> chunker \<Rightarrow> page_segment \<Rightarrow> chunker" where
  "add_segment page_no st seg =
     (let is_new_marker = (s_section_id seg \<noteq> None \<and> s_section_id seg \<noteq> ck_section st);
          st1 =
            (if ck_start st = None
             then st\<lparr>ck_start := Some page_no, ck_section := s_section_id seg,
                     ck_heading := s_heading seg\<rparr>
             else if is_new_marker
             then (flush st)\<lparr>ck_start := Some page_no, ck_section := s_section_id seg,
                             ck_heading := s_heading seg\<rparr>
             else if ck_section st = None \<and> s_section_id seg \<noteq> None
             then st\<lparr>ck_section := s_section_id seg, ck_heading := s_heading seg\<rparr>
             else st)
      in st1\<lparr>ck_end := Some page_no, ck_buf := ck_buf st1 @ [s_text seg]\<rparr>)"

definition add_page :: "chunker \<Rightarrow> int \<times> string \<Rightarrow> chunker" where
  "add_page st page = foldl (add_segment (fst page)) st (split_page_into_segments (snd page))"

definition chunk_document_pages :: "(int \<times> string) list \<Rightarrow> py_chunk list" where
  "chunk_document_pages pages = ck_chunks (flush (foldl add_page chunker_init pages))"

text \<open>
  The invariant of the loop, for pages that come in ascending order: every finished chunk
  has its pages in order, and the open chunk started no later than page \<open>lo\<close> and no later
  than it ends.
\<close>

definition chunker_ok :: "int \<Rightarrow> chunker \<Rightarrow> bool" where
  "chunker_ok lo st =
     ((\<forall>c \<in> set (ck_chunks st). c_page_start c \<le> c_page_end c) \<and>
      (\<forall>s. ck_start st = Some s \<longrightarrow> s \<le> lo) \<and>
      (\<forall>s e. ck_start st = Some s \<and> ck_end st = Some e \<longrightarrow> s \<le> e))"

section \<open>Chunk and table rebuild (chunk\_ingestion.py)\<close>

text \<open>
  The non-ASCII characters of \<^verbatim>\<open>_EQUATION_SYMBOLS\<close> and \<^verbatim>\<open>_EQUATION_OPS_RE\<close>: the signs
  for less-or-equal, greater-or-equal, not-equal, sum, square root, plus-minus, times and
  division.
\<close>

definition le_sign :: char where "le_sign = CHR 0x80"
definition ge_sign :: char where "ge_sign = CHR 0x81"
definition ne_sign :: char where "ne_sign = CHR 0x82"
definition sum_sign :: char where "sum_sign = CHR 0x83"
definition sqrt_sign :: char where "sqrt_sign = CHR 0x84"
definition pm_sign :: char where "pm_sign = CHR 0xB1"
definition times_sign :: char where "times_sign = CHR 0xD7"
definition div_sign :: char where "div_sign = CHR 0xF7"

definition EQUATION_SYMBOLS :: string where
  "EQUATION_SYMBOLS =
     [CHR ''='', le_sign, ge_sign, ne_sign, pm_sign, times_sign, div_sign, sum_sign, sqrt_sign,
      CHR ''^'', CHR ''_'']"

text \<open>
  \<^verbatim>\<open>_EQUATION_OPS_RE\<close>: a character class of \<^verbatim>\<open>=\<close>, \<^verbatim>\<open><\<close>, \<^verbatim>\<open>>\<close>, \<^verbatim>\<open>^\<close>, \<^verbatim>\<open>_\<close> and the
  plus-minus, times, division, sum and root signs.
\<close>

definition EQUATION_OPS_RE :: rx where
  "EQUATION_OPS_RE =
     OneOf [CHR ''='', CHR ''<'', CHR ''>'', pm_sign, times_sign, div_sign, sum_sign, sqrt_sign,
            CHR ''^'', CHR ''_'']"

text \<open>\<^verbatim>\<open>_EQUATION_VAR_RE = \b[A-Za-z]{1,4}\d{0,2}\b\<close>\<close>

definition EQUATION_VAR_RE :: rx where
  "EQUATION_VAR_RE =
     Seqs [WordB, Between 1 4 (Set True [CChars upper_chars, CChars lower_chars]),
           Between 0 2 Digit, WordB]"

text \<open>\<^verbatim>\<open>_EQUATION_FUNC_RE = \b(?:log|ln|sin|cos|tan)\b\<close>, ignoring case\<close>

definition EQUATION_FUNC_RE :: rx where
  "EQUATION_FUNC_RE =
     Seqs [WordB, Alts [Lits ''log'', Lits ''ln'', Lits ''sin'', Lits ''cos'', Lits ''tan''], WordB]"

text \<open>\<^verbatim>\<open>_FRACTION_RE = \b[A-Za-z0-9]+\s*/\s*[A-Za-z0-9]+\b\<close>\<close>

definition FRACTION_RE :: rx where
  "FRACTION_RE =
     Seqs [WordB, Some1 AlNum, Any0 Space, Lit CHR ''/'', Any0 Space, Some1 AlNum, WordB]"

text \<open>\<^verbatim>\<open>_TABLE_TOKEN_RE = \b(?:table|tab\.)\s*(\d{3}\.\d{2}(?:\.\d{2})?-\d+)\b\<close>, ignoring case\<close>

definition TABLE_TOKEN_RE :: rx where
  "TABLE_TOKEN_RE =
     Seqs [WordB, Alt (Lits ''table'') (Lits ''tab.''), Any0 Space,
           Grp 1 (Seqs [section_dot_rx, Lit CHR ''-'', Some1 Digit]), WordB]"

text \<open>\<^verbatim>\<open>_TABLE_HEADER_RE = ^\s*(?:table|tab\.)\s+\d{3}\.\d{2}\<close>, ignoring case\<close>

definition TABLE_HEADER_RE :: rx where
  "TABLE_HEADER_RE =
     Seqs [Bol, Any0 Space, Alt (Lits ''table'') (Lits ''tab.''), Some1 Space,
           Times 3 Digit, Lit CHR ''.'', Times 2 Digit]"

text \<open>\<^verbatim>\<open>_SECTION_HEADER_RE = ^\s*\d{3}\.\d{2}\b\<close>\<close>

definition SECTION_HEADER_RE :: rx where
  "SECTION_HEADER_RE = Seqs [Bol, Any0 Space, Times 3 Digit, Lit CHR ''.'', Times 2 Digit, WordB]"

text \<open>
  The pattern local to \<^verbatim>\<open>looks_like_toc_block\<close>:
  \<^verbatim>\<open>\b\d{3}\.\d{2}(?:\.\d{2})?\b.*?\.{2,}.*?\b\d{1,4}\b\<close>
\<close>

definition toc_line_re :: rx where
  "toc_line_re =
     Seqs [WordB, section_dot_rx, WordB, Lazy0 Dot, AtLeast 2 (Lit CHR ''.''), Lazy0 Dot,
           WordB, Between 1 4 Digit, WordB]"

definition looks_like_toc_block :: "string \<Rightarrow> bool" where
  "looks_like_toc_block text =
     (if contains (upper text) ''TABLE OF CONTENTS'' then True
      else if re_search toc_line_re no_flags text \<noteq> None then True
      else if length text < 300 then False
      else 6 \<le> length (re_findall toc_line_re no_flags text))"

definition classify_chunk :: "string option \<Rightarrow> string \<Rightarrow> string" where
  "classify_chunk section_id text =
     (if looks_like_toc_block text then ''toc''
      else if section_id = None then ''front_matter''
      else ''content'')"

text \<open>
  The score that \<^verbatim>\<open>equation_score\<close> gives one stripped line of 8 to 200 characters.  The
  score is a float: each \<^verbatim>\<open>score += w\<close> adds the double of the literal \<open>w\<close> and rounds the sum.
\<close>

definition line_equation_score :: "string \<Rightarrow> double" where
  "line_equation_score line =
     (let score = (0, 0);
          score = (if 0 < length (filter (\<lambda>ch. ch \<in> set EQUATION_SYMBOLS) line)
                   then dadd score (double_of_ratio 25 100) else score);
          score = (if re_search EQUATION_OPS_RE no_flags line \<noteq> None
                   then dadd score (double_of_ratio 2 10) else score);
          score = (if 2 \<le> length (re_findall EQUATION_VAR_RE no_flags line)
                   then dadd score (double_of_ratio 2 10) else score);
          score = (if re_search EQUATION_FUNC_RE icase line \<noteq> None
                   then dadd score (double_of_ratio 1 10) else score);
          score = (if re_search FRACTION_RE no_flags line \<noteq> None
                   then dadd score (double_of_ratio 1 10) else score);
          score = (if 4 \<le> length (filter is_digit line)
                   then dadd score (double_of_ratio 1 10) else score);
          non_letters = length (filter (\<lambda>ch. \<not> is_alpha ch \<and> \<not> is_space ch) line);
          score = (if 0 < length line
                      \<and> dless (double_of_ratio 3 10)
                            (double_of_ratio (int non_letters) (int (length line)))
                   then dadd score (double_of_ratio 1 10) else score)
      in score)"

definition equation_score :: "string \<Rightarrow> double" where
  "equation_score text =
     (if text = [] then (0, 0)
      else dmin (foldl (\<lambda>best raw.
                    let line = strip raw
                    in if line = [] then best
                       else if length line < 8 \<or> 200 < length line then best
                       else (let score = line_equation_score line
                             in if dless best score then score else best))
                  (0, 0) (splitlines text))
             (double_of_ratio 1 1))"

record table_block =
  blk_lines :: "string list"
  blk_start_line :: int
  blk_end_line :: int

text \<open>The local variables of \<^verbatim>\<open>extract_table_blocks\<close>.\<close>

record block_scan =
  bs_blocks :: "table_block list"
  bs_buf :: "string list"
  bs_buf_start :: "int option"

definition flush_block :: "int \<Rightarrow> block_scan \<Rightarrow> block_scan" where
  "flush_block end_i st =
     \<lparr>bs_blocks =
        (case bs_buf_start st of
           Some start \<Rightarrow>
             if bs_buf st \<noteq> [] \<and> 5 \<le> length (filter (\<lambda>line. strip line \<noteq> []) (bs_buf st))
             then bs_blocks st @
                  [\<lparr>blk_lines = bs_buf st, blk_start_line = start, blk_end_line = end_i\<rparr>]
             else bs_blocks st
         | None \<Rightarrow> bs_blocks st),
      bs_buf = [], bs_buf_start = None\<rparr>"

definition scan_line :: "block_scan \<Rightarrow> int \<times> string \<Rightarrow> block_scan" where
  "scan_line st il =
     (let i = fst il; line = snd il
      in if re_search TABLE_HEADER_RE icase line \<noteq> None
         then (let st1 = (if bs_buf_start st \<noteq> None then flush_block (i - 1) st else st)
               in st1\<lparr>bs_buf_start := Some i, bs_buf := bs_buf st1 @ [line]\<rparr>)
         else if bs_buf_start st \<noteq> None
         then (if re_search SECTION_HEADER_RE no_flags line \<noteq> None then flush_block (i - 1) st
               else st\<lparr>bs_buf := bs_buf st @ [line]\<rparr>)
         else st)"

definition extract_table_blocks :: "string \<Rightarrow> table_block list" where
  "extract_table_blocks page_text =
     (let lines = map (\<lambda>line. rev (dropWhile (\<lambda>c. c = newline) (rev line))) (splitlines page_text);
          st = foldl scan_line \<lparr>bs_blocks = [], bs_buf = [], bs_buf_start = None\<rparr>
                 (zip (map int [0..<length lines]) lines);
          st' = (if bs_buf_start st \<noteq> None then flush_block (int (length lines) - 1) st else st)
      in bs_blocks st')"

text \<open>
  \<^verbatim>\<open>_stable_table_uid\<close>.  The hash \<^verbatim>\<open>hashlib.sha1(raw).hexdigest()\<close> is a parameter:
  a function from the text that is encoded and hashed to the hexadecimal digest.
\<close>

definition stable_table_uid ::
  "(string \<Rightarrow> string) \<Rightarrow> int \<Rightarrow> string \<Rightarrow> int \<Rightarrow> int \<Rightarrow> string list \<Rightarrow> string" where
  "stable_table_uid sha1_hex document_id filename page_number table_index_on_page lines =
     (let content = join [newline] (take 25 lines);
          raw = str_int document_id @ ''|'' @ filename @ ''|'' @ str_int page_number @ ''|'' @
                str_int table_index_on_page @ ''|'' @ content
      in ''tbl_'' @ sha1_hex raw)"

subsection \<open>The document store\<close>

record document_row =
  d_id :: int
  d_filename :: string
  d_display_name :: string
  d_doc_type :: string
  d_mp_id :: "string option"

record page_row =
  pg_document_id :: int
  pg_page_number :: int
  pg_text :: "string option"

record chunk_row =
  ch_id :: int
  ch_document_id :: int
  ch_chunk_index :: int
  ch_section_id :: "string option"
  ch_heading :: "string option"
  ch_page_start :: int
  ch_page_end :: int
  ch_text :: string
  ch_is_table :: int
  ch_is_definition :: int
  ch_is_procedure :: int
  ch_chunk_kind :: "string option"
  ch_equation_score :: double
  ch_table_uid :: "string option"
  ch_table_row_index :: "int option"
  ch_table_label :: "string option"

record table_rec =
  tb_table_uid :: string
  tb_document_id :: int
  tb_filename :: string
  tb_display_name :: string
  tb_doc_type :: string
  tb_mp_id :: "string option"
  tb_section_id :: "string option"
  tb_page_number :: int
  tb_table_index_on_page :: int
  tb_table_label :: string
  tb_title :: "string option"

record table_row_rec =
  tr_table_uid :: string
  tr_row_index :: int
  tr_row_text :: string

record store =
  st_documents :: "document_row list"
  st_pages :: "page_row list"
  st_chunks :: "chunk_row list"
  st_tables :: "table_rec list"
  st_table_rows :: "table_row_rec list"

text \<open>
  Modelled from the spec: the schema of the store is not part of the sources.  A new chunk
  gets the next row id, one more than the largest id in the table, and \<open>table_uid\<close>
  identifies a table, so \<^verbatim>\<open>INSERT OR REPLACE\<close> removes an earlier table with the same uid.
\<close>

definition next_chunk_id :: "chunk_row list \<Rightarrow> int" where
  "next_chunk_id cs = foldr max (map ch_id cs) 0 + 1"

definition insert_chunk :: "(int \<Rightarrow> chunk_row) \<Rightarrow> store \<Rightarrow> store" where
  "insert_chunk mk db = db\<lparr>st_chunks := st_chunks db @ [mk (next_chunk_id (st_chunks db))]\<rparr>"

definition insert_or_replace_table :: "table_rec \<Rightarrow> store \<Rightarrow> store" where
  "insert_or_replace_table t db =
     db\<lparr>st_tables := filter (\<lambda>x. tb_table_uid x \<noteq> tb_table_uid t) (st_tables db) @ [t]\<rparr>"

definition insert_table_row :: "table_row_rec \<Rightarrow> store \<Rightarrow> store" where
  "insert_table_row r db = db\<lparr>st_table_rows := st_table_rows db @ [r]\<rparr>"

text \<open>
  \<^verbatim>\<open>row_text LIKE '%token%'\<close>: the token occurs in the text, letters compared without case.
  (A token comes from \<open>TABLE_TOKEN_RE\<close> and so has no \<^verbatim>\<open>%\<close> or \<^verbatim>\<open>_\<close> in it.)
\<close>

definition sql_like_contains :: "string \<Rightarrow> string \<Rightarrow> bool" where
  "sql_like_contains text token = contains (lower text) (lower token)"

text \<open>\<^verbatim>\<open>_resolve_table_uid\<close>, over the offsets \<^verbatim>\<open>(0, -1, 1)\<close> in turn.\<close>

fun resolve_offsets ::
  "table_rec list \<Rightarrow> table_row_rec list \<Rightarrow> int \<Rightarrow> int \<Rightarrow> string \<Rightarrow> int list \<Rightarrow> (string \<times> string) option" where
  "resolve_offsets tables rows document_id page_no token [] = None"
| "resolve_offsets tables rows document_id page_no token (offset # offsets) =
     (let candidates =
            sort_key tb_table_index_on_page
              (filter (\<lambda>t. tb_document_id t = document_id \<and> tb_page_number t = page_no + offset)
                 tables)
      in case candidates of
           [] \<Rightarrow> resolve_offsets tables rows document_id page_no token offsets
         | [c] \<Rightarrow> Some (tb_table_uid c, tb_table_label c)
         | _ \<Rightarrow>
             (let match_rows =
                    remdups (map tr_table_uid
                      (filter (\<lambda>r. tr_table_uid r \<in> set (map tb_table_uid candidates) \<and>
                                   sql_like_contains (tr_row_text r) token) rows))
              in case match_rows of
                   [uid] \<Rightarrow>
                     Some (uid, (case filter (\<lambda>c. tb_table_uid c = uid) candidates of
                                   c # _ \<Rightarrow> tb_table_label c | [] \<Rightarrow> []))
                 | [] \<Rightarrow> None
                 | _ \<Rightarrow>
                     (case filter (\<lambda>c. tb_table_uid c \<in> set match_rows) candidates of
                        c # _ \<Rightarrow> Some (tb_table_uid c, tb_table_label c)
                      | [] \<Rightarrow> None)))"

definition resolve_table_uid ::
  "store \<Rightarrow> int \<Rightarrow> int \<Rightarrow> string \<Rightarrow> (string \<times> string) option" where
  "resolve_table_uid db document_id page_no token =
     resolve_offsets (st_tables db) (st_table_rows db) document_id page_no token [0, -1, 1]"

text \<open>\<^verbatim>\<open>UPDATE chunks SET table_uid = ?, table_label = ? WHERE id = ?\<close>\<close>

definition update_chunk_table :: "int \<Rightarrow> string \<Rightarrow> string \<Rightarrow> store \<Rightarrow> store" where
  "update_chunk_table cid table_uid table_label db =
     db\<lparr>st_chunks :=
          map (\<lambda>c. if ch_id c = cid
                   then c\<lparr>ch_table_uid := Some table_uid, ch_table_label := Some table_label\<rparr>
                   else c)
            (st_chunks db)\<rparr>"

definition link_row :: "int \<Rightarrow> store \<Rightarrow> chunk_row \<Rightarrow> store" where
  "link_row document_id db r =
     (case re_search TABLE_TOKEN_RE icase (ch_text r) of
        None \<Rightarrow> db
      | Some m \<Rightarrow>
          (case group m 1 of
             None \<Rightarrow> db
           | Some token \<Rightarrow>
               (case resolve_table_uid db document_id (ch_page_start r) token of
                  None \<Rightarrow> db
                | Some (table_uid, table_label) \<Rightarrow>
                    update_chunk_table (ch_id r) table_uid table_label db)))"

definition link_table_uids_for_document :: "int \<Rightarrow> store \<Rightarrow> store" where
  "link_table_uids_for_document document_id db =
     foldl (link_row document_id) db
       (filter (\<lambda>c. ch_document_id c = document_id \<and>
                    (ch_chunk_kind c = None \<or>
                     (ch_chunk_kind c \<noteq> Some ''toc'' \<and> ch_chunk_kind c \<noteq> Some ''front_matter'')) \<and>
                    ch_table_uid c = None)
          (st_chunks db))"

subsection \<open>rebuild\_chunks\<close>

text \<open>
  The section context by page: the chunks sorted by page are consumed while they start
  at or before the page, and a chunk with a section id sets the current context.
\<close>

fun advance_context ::
  "py_chunk list \<Rightarrow> int \<Rightarrow> string option \<times> string option \<Rightarrow>
   py_chunk list \<times> (string option \<times> string option)" where
  "advance_context [] page_no cur = ([], cur)"
| "advance_context (ch # rest) page_no cur =
     (if c_page_start ch \<le> page_no
      then advance_context rest page_no
             (if c_section_id ch \<noteq> None \<and> c_section_id ch \<noteq> Some []
              then (c_section_id ch, c_heading ch) else cur)
      else (ch # rest, cur))"

fun section_context ::
  "py_chunk list \<Rightarrow> string option \<times> string option \<Rightarrow>
   (int \<rightharpoonup> string option \<times> string option) \<Rightarrow> int list \<Rightarrow>
   (int \<rightharpoonup> string option \<times> string option)" where
  "section_context chunks_sorted cur ctx [] = ctx"
| "section_context chunks_sorted cur ctx (page_no # rest) =
     (case advance_context chunks_sorted page_no cur of
        (chunks_left, cur') \<Rightarrow> section_context chunks_left cur' (ctx(page_no \<mapsto> cur')) rest)"

text \<open>The loop state of one document: the store and the running \<^verbatim>\<open>chunk_index\<close>.\<close>

definition content_chunk_row ::
  "int \<Rightarrow> int \<Rightarrow> py_chunk \<Rightarrow> int \<Rightarrow> chunk_row" where
  "content_chunk_row doc_id chunk_index ch cid =
     (let eq_score = equation_score (c_text ch);
          kind = (if dle (double_of_ratio 45 100) eq_score then ''equation''
                  else classify_chunk (c_section_id ch) (c_text ch))
      in \<lparr>ch_id = cid, ch_document_id = doc_id, ch_chunk_index = chunk_index,
          ch_section_id = c_section_id ch, ch_heading = c_heading ch,
          ch_page_start = c_page_start ch, ch_page_end = c_page_end ch, ch_text = c_text ch,
          ch_is_table = 0, ch_is_definition = 0, ch_is_procedure = 0,
          ch_chunk_kind = Some kind, ch_equation_score = eq_score,
          ch_table_uid = None, ch_table_row_index = None, ch_table_label = None\<rparr>)"

definition insert_content_chunk :: "int \<Rightarrow> store \<times> int \<Rightarrow> py_chunk \<Rightarrow> store \<times> int" where
  "insert_content_chunk doc_id s ch =
     (insert_chunk (content_chunk_row doc_id (snd s) ch) (fst s), snd s + 1)"

definition table_row_chunk ::
  "int \<Rightarrow> int \<Rightarrow> string option \<Rightarrow> string option \<Rightarrow> int \<Rightarrow> string \<Rightarrow> string \<Rightarrow> int \<Rightarrow> string \<Rightarrow>
   int \<Rightarrow> chunk_row" where
  "table_row_chunk doc_id chunk_index section_id heading page_no row_text table_uid r_idx
     table_label cid =
     \<lparr>ch_id = cid, ch_document_id = doc_id, ch_chunk_index = chunk_index,
      ch_section_id = section_id, ch_heading = heading,
      ch_page_start = page_no, ch_page_end = page_no, ch_text = row_text,
      ch_is_table = 1, ch_is_definition = 0, ch_is_procedure = 0,
      ch_chunk_kind = Some ''table_row'', ch_equation_score = (0, 0),
      ch_table_uid = Some table_uid, ch_table_row_index = Some r_idx,
      ch_table_label = Some table_label\<rparr>"

definition insert_table_line ::
  "int \<Rightarrow> string option \<Rightarrow> string option \<Rightarrow> int \<Rightarrow> string \<Rightarrow> string \<Rightarrow>
   store \<times> int \<Rightarrow> int \<times> string \<Rightarrow> store \<times> int" where
  "insert_table_line doc_id section_id heading page_no table_uid table_label s il =
     (let r_idx = fst il; row_text = strip (snd il)
      in if row_text = [] then s
         else (insert_chunk
                 (table_row_chunk doc_id (snd s) section_id heading page_no row_text table_uid
                    r_idx table_label)
                 (insert_table_row
                    \<lparr>tr_table_uid = table_uid, tr_row_index = r_idx, tr_row_text = row_text\<rparr>
                    (fst s)),
               snd s + 1))"

definition insert_table_block ::
  "(string \<Rightarrow> string) \<Rightarrow> document_row \<Rightarrow> string option \<Rightarrow> string option \<Rightarrow> int \<Rightarrow>
   store \<times> int \<Rightarrow> int \<times> table_block \<Rightarrow> store \<times> int" where
  "insert_table_block sha1_hex d section_id heading page_no s tb =
     (let t_idx = fst tb; blk = snd tb;
          table_uid = stable_table_uid sha1_hex (d_id d) (d_filename d) page_no t_idx (blk_lines blk);
          table_label = ''Table (p. '' @ str_int page_no @ '') #'' @ str_int t_idx;
          db1 = insert_or_replace_table
                  \<lparr>tb_table_uid = table_uid, tb_document_id = d_id d, tb_filename = d_filename d,
                   tb_display_name = d_display_name d, tb_doc_type = d_doc_type d,
                   tb_mp_id = d_mp_id d, tb_section_id = section_id, tb_page_number = page_no,
                   tb_table_index_on_page = t_idx, tb_table_label = table_label,
                   tb_title = None\<rparr>
                  (fst s)
      in foldl (insert_table_line (d_id d) section_id heading page_no table_uid table_label)
           (db1, snd s)
           (zip (map int [0..<length (blk_lines blk)]) (blk_lines blk)))"

definition insert_page_tables ::
  "(string \<Rightarrow> string) \<Rightarrow> document_row \<Rightarrow> (int \<rightharpoonup> string option \<times> string option) \<Rightarrow>
   store \<times> int \<Rightarrow> int \<times> string \<Rightarrow> store \<times> int" where
  "insert_page_tables sha1_hex d ctx s page =
     (let page_no = fst page; blocks = extract_table_blocks (snd page)
      in if blocks = [] then s
         else (case (case ctx page_no of None \<Rightarrow> (None, None) | Some c \<Rightarrow> c) of
                 (section_id, heading) \<Rightarrow>
                   foldl (insert_table_block sha1_hex d section_id heading page_no) s
                     (zip (map int [1..<Suc (length blocks)]) blocks)))"

text \<open>
  The pages of a document as \<^verbatim>\<open>rebuild_chunks\<close> reads them:
  \<^verbatim>\<open>SELECT page_number, text FROM pages WHERE document_id = ? ORDER BY page_number\<close>,
  with a missing text read as the empty string.
\<close>

definition document_pages :: "store \<Rightarrow> int \<Rightarrow> (int \<times> string) list" where
  "document_pages db doc_id =
     map (\<lambda>r. (pg_page_number r, (case pg_text r of None \<Rightarrow> [] | Some t \<Rightarrow> t)))
       (sort_key pg_page_number (filter (\<lambda>r. pg_document_id r = doc_id) (st_pages db)))"

definition rebuild_document :: "(string \<Rightarrow> string) \<Rightarrow> store \<Rightarrow> document_row \<Rightarrow> store" where
  "rebuild_document sha1_hex db d =
     (let pages = document_pages db (d_id d);
          chunks = chunk_document_pages pages;
          chunks_sorted = sort_key (\<lambda>c. (c_page_start c, c_page_end c)) chunks;
          ctx = section_context chunks_sorted (None, None) Map.empty (map fst pages);
          s1 = foldl (insert_content_chunk (d_id d)) (db, 0) chunks;
          s2 = foldl (insert_page_tables sha1_hex d ctx) s1 pages
      in link_table_uids_for_document (d_id d) (fst s2))"

text \<open>
  \<^verbatim>\<open>rebuild_chunks\<close>: wipe the derived tables, then rebuild every document in the order of
  its id.  The statistics that the function returns are left out; a storage error would
  abort the rebuild and is not modelled.
\<close>

definition rebuild_chunks :: "(string \<Rightarrow> string) \<Rightarrow> store \<Rightarrow> store" where
  "rebuild_chunks sha1_hex db =
     foldl (rebuild_document sha1_hex)
       (db\<lparr>st_table_rows := [], st_tables := [], st_chunks := []\<rparr>)
       (sort_key d_id (st_documents db))"

subsection \<open>What a rebuild maintains\<close>

text \<open>The chunk invariant of the data model, on a stored chunk.\<close>

definition chunk_row_ok :: "chunk_row \<Rightarrow> bool" where
  "chunk_row_ok c =
     (ch_page_start c \<le> ch_page_end c \<and>
      ((ch_table_row_index c \<noteq> None) = (ch_chunk_kind c = Some ''table_row'')))"

text \<open>A stored table whose uid is the stable uid of its own document, file, page and index.\<close>

definition table_uid_ok :: "(string \<Rightarrow> string) \<Rightarrow> table_rec \<Rightarrow> bool" where
  "table_uid_ok sha1_hex t =
     (\<exists>lines. tb_table_uid t =
        stable_table_uid sha1_hex (tb_document_id t) (tb_filename t) (tb_page_number t)
          (tb_table_index_on_page t) lines)"

text \<open>
  The invariant of the rebuild loops: documents and pages are as at the start, every
  stored chunk satisfies the chunk invariant, and every stored table has a stable uid.
\<close>

definition rebuild_inv ::
  "(string \<Rightarrow> string) \<Rightarrow> document_row list \<Rightarrow> page_row list \<Rightarrow> store \<Rightarrow> bool" where
  "rebuild_inv sha1_hex docs pages db =
     (st_documents db = docs \<and> st_pages db = pages \<and>
      (\<forall>c \<in> set (st_chunks db). chunk_row_ok c) \<and>
      (\<forall>t \<in> set (st_tables db). table_uid_ok sha1_hex t))"

text \<open>
  A store and a digest for concrete evaluation: one document with an empty first page and
  a second page that holds a five-line table between two subsection headers; the same store with
  stale derived rows left in it; and the identity as a stand-in for the digest.
\<close>

definition demo_page :: string where
  "demo_page =
     join [newline]
       [''701.03  WORK'', ''Table 701.03-1 S'', ''A 1'', ''B 2'', [], ''C 3'', ''D 4'',
        ''701.04  PAY'']"

definition demo_store :: store where
  "demo_store =
     \<lparr>st_documents =
        [\<lparr>d_id = 7, d_filename = ''s.pdf'', d_display_name = ''S'', d_doc_type = ''standspec'',
          d_mp_id = None\<rparr>],
      st_pages =
        [\<lparr>pg_document_id = 7, pg_page_number = 2, pg_text = Some demo_page\<rparr>,
         \<lparr>pg_document_id = 7, pg_page_number = 1, pg_text = None\<rparr>],
      st_chunks = [], st_tables = [], st_table_rows = []\<rparr>"

definition demo_store_stale :: store where
  "demo_store_stale =
     demo_store
       \<lparr>st_tables :=
          [\<lparr>tb_table_uid = ''tbl_old'', tb_document_id = 7, tb_filename = ''s.pdf'',
            tb_display_name = ''S'', tb_doc_type = ''standspec'', tb_mp_id = None,
            tb_section_id = None, tb_page_number = 9, tb_table_index_on_page = 1,
            tb_table_label = ''Table (p. 9) #1'', tb_title = None\<rparr>],
        st_table_rows := [\<lparr>tr_table_uid = ''tbl_old'', tr_row_index = 0, tr_row_text = ''x''\<rparr>]\<rparr>"

definition demo_digest :: "string \<Rightarrow> string" where
  "demo_digest raw = raw"

section \<open>The ask path (ask.py)\<close>

subsection \<open>Hits and results\<close>

text \<open>
  The hits that the orchestrator handles are \<^verbatim>\<open>HybridChunkHit\<close> objects (hybrid search) or
  \<^verbatim>\<open>_DBHit\<close> objects (the section and table lookups).  Both dataclasses share the fields
  below; a \<^verbatim>\<open>HybridChunkHit\<close> has in addition \<^verbatim>\<open>bm25_score\<close>, \<^verbatim>\<open>vec_score\<close> and
  \<^verbatim>\<open>table_row_index\<close> and has no attribute \<^verbatim>\<open>text\<close>; a \<^verbatim>\<open>_DBHit\<close> has \<^verbatim>\<open>text\<close>.
\<close>

datatype hit_class =
    HybridChunkHit "real option" "real option" "int option"
  | DBHit string

record hit =
  h_score :: real
  h_chunk_id :: int
  h_document_id :: int
  h_filename :: string
  h_display_name :: string
  h_doc_type :: string
  h_mp_id :: "string option"
  h_section_id :: "string option"
  h_heading :: "string option"
  h_page_start :: int
  h_page_end :: int
  h_snippet :: string
  h_chunk_kind :: "string option"
  h_table_uid :: "string option"
  h_table_label :: "string option"
  h_class :: hit_class

text \<open>\<^verbatim>\<open>x or ""\<close> and the truth value of an optional string.\<close>

fun or_empty :: "string option \<Rightarrow> string" where
  "or_empty None = []"
| "or_empty (Some s) = s"

fun truthy :: "string option \<Rightarrow> bool" where
  "truthy None = False"
| "truthy (Some s) = (s \<noteq> [])"

text \<open>
  \<^verbatim>\<open>getattr(h, "text", "") or ""\<close>, and the plain attribute access \<^verbatim>\<open>h.text\<close>, which raises
  \<^verbatim>\<open>AttributeError\<close> on a \<^verbatim>\<open>HybridChunkHit\<close>.
\<close>

definition text_or_empty :: "hit \<Rightarrow> string" where
  "text_or_empty h = (case h_class h of DBHit t \<Rightarrow> t | HybridChunkHit _ _ _ \<Rightarrow> [])"

definition text_attr :: "hit \<Rightarrow> py_error + string" where
  "text_attr h = (case h_class h of DBHit t \<Rightarrow> Inr t | HybridChunkHit _ _ _ \<Rightarrow> Inl AttributeError)"

text \<open>
  The \<^verbatim>\<open>table\<close> entry of a response.  Its remaining keys are constants in every response
  that the orchestrator builds (\<^verbatim>\<open>rows = []\<close>, \<^verbatim>\<open>truncated = False\<close>, \<^verbatim>\<open>total = None\<close>,
  \<^verbatim>\<open>next_offset = None\<close>).
\<close>

record ask_table =
  at_table_uid :: string
  at_table_label :: string
  at_page_number :: int
  at_open_url :: string
  at_filename :: string
  at_display_name :: string

text \<open>The dict that \<^verbatim>\<open>ask_question\<close> returns.\<close>

record ask_result =
  ar_confidence :: string
  ar_answer :: string
  ar_hits :: "hit list"
  ar_table :: "ask_table option"

definition result :: "string \<Rightarrow> string \<Rightarrow> hit list \<Rightarrow> ask_result" where
  "result conf answer hits =
     \<lparr>ar_confidence = conf, ar_answer = answer, ar_hits = hits, ar_table = None\<rparr>"

text \<open>\<^verbatim>\<open>bool(re.search(p, s))\<close>.\<close>

definition found :: "rx \<Rightarrow> rflags \<Rightarrow> string \<Rightarrow> bool" where
  "found r fl s = (re_search r fl s \<noteq> None)"

text \<open>\<^verbatim>\<open>re.sub(p, repl, s)\<close> for a constant replacement.\<close>

definition sub_const :: "rx \<Rightarrow> rflags \<Rightarrow> string \<Rightarrow> string \<Rightarrow> string" where
  "sub_const r fl repl s = re_sub r fl (\<lambda>_. repl) s"

text \<open>\<^verbatim>\<open>re.sub(p, r"\1", s)\<close>.\<close>

definition sub_group1 :: "rx \<Rightarrow> rflags \<Rightarrow> string \<Rightarrow> string" where
  "sub_group1 r fl s = re_sub r fl (\<lambda>m. or_empty (group m 1)) s"

subsection \<open>Query classification\<close>

text \<open>The pattern \<^verbatim>\<open>\d{3}(?:\.\d{2}){0,2}\<close>.\<close>

definition section_num_rx :: rx where
  "section_num_rx = Seq (Times 3 Digit) (Between 0 2 (Seq (Lit CHR ''.'') (Times 2 Digit)))"

text \<open>\<^verbatim>\<open>is_section_intent\<close> (rerank.py).\<close>

definition is_section_intent :: "string \<Rightarrow> bool" where
  "is_section_intent query =
     (let q = upper (strip query)
      in found (Seqs [WordB, section_num_rx, WordB]) no_flags q \<or> contains q ''SECTION'')"

definition is_time_limit_question :: "string \<Rightarrow> bool" where
  "is_time_limit_question query =
     found (Alts [Seqs [WordB, Lits ''within how many days'', WordB],
                  Seqs [WordB, Lits ''within '', Some1 Digit, Lits '' days'', WordB],
                  Seqs [WordB, Lits ''days after'', WordB],
                  Seqs [WordB, Lits ''within '', Any0 Dot, Lits '' days'', WordB]])
       no_flags (lower query)"

definition payment_word_rx :: rx where
  "payment_word_rx = Alts [Lits ''receipt'', Lits ''receiv'', Lits ''payment'', Lits ''paid'']"

definition has_payment_days_phrase :: "string \<Rightarrow> bool" where
  "has_payment_days_phrase txt =
     (if txt = [] then False
      else found (Seqs [WordB, Grp 1 (Some1 Digit), Some1 Space, Lits ''days'', Between 0 120 Dot,
                        WordB, Grp 2 payment_word_rx, WordB]) icase txt
         \<or> found (Seqs [WordB, Grp 1 payment_word_rx, WordB, Between 0 120 Dot,
                        WordB, Grp 2 (Some1 Digit), Some1 Space, Lits ''days'', WordB]) icase txt)"

definition question_asks_for_section_or_page :: "string \<Rightarrow> bool" where
  "question_asks_for_section_or_page query =
     (let q = lower query
      in list_ex (contains q)
           [''which section'', ''what section'', ''section number'', ''section id'',
            ''what page'', ''which page'', ''page number'', ''where in the manual'',
            ''where in the spec'', ''where can i find'', ''cite'', ''citation'', ''reference'']
         \<or> found (Seqs [WordB, section_dot_rx, WordB]) icase q)"

definition is_bare_section_id_query :: "string \<Rightarrow> bool" where
  "is_bare_section_id_query query =
     (re_fullmatch (Seqs [Any0 Space, section_dot_rx, Any0 Space]) no_flags query \<noteq> None)"

definition looks_like_table_query :: "string \<Rightarrow> bool" where
  "looks_like_table_query q =
     list_ex (contains (lower q)) [''table'', ''tab.'', ''chart'', ''tbl'', ''requirements table'']"

definition is_prompt_payment_interest_intent :: "string \<Rightarrow> bool" where
  "is_prompt_payment_interest_intent q =
     (let s = lower q
      in list_ex (contains s)
           [''52:32-40'', ''52:32-41'', ''interest'', ''prime rate'', ''plus 1 percent'',
            ''accrue'', ''tenth day'', ''withholding payment'']
         \<or> found (Seqs [WordB, Lits ''52'', Any0 Space, Lit CHR '':'', Any0 Space, Lits ''32-4'',
                         Grp 1 (Alt (Lit CHR ''0'') (Lit CHR ''1'')), WordB]) no_flags s)"

subsection \<open>Section and table tokens of a query\<close>

definition section_sign :: char where "section_sign = CHR 0xA7"

definition extract_exact_section_id :: "string \<Rightarrow> string option" where
  "extract_exact_section_id query =
     (let q = strip query
      in if re_fullmatch section_dot_rx no_flags q \<noteq> None then Some q
         else (case re_match (Seqs [Bol, Any0 Space, Grp 1 section_dot_rx, WordB]) no_flags q of
                 Some m \<Rightarrow> group m 1
               | None \<Rightarrow> None))"

definition extract_section_prefix :: "string \<Rightarrow> string option" where
  "extract_section_prefix q =
     (case re_search (Seqs [WordB, Lits ''section'', Any0 Space, Grp 1 (Times 3 Digit), WordB]) icase q of
        Some m \<Rightarrow> group m 1
      | None \<Rightarrow>
         (case re_search (Seqs [WordB, Lit section_sign, Any0 Space, Grp 1 (Times 3 Digit), WordB])
                 no_flags q of
            Some m \<Rightarrow> group m 1
          | None \<Rightarrow>
             if re_fullmatch (Seqs [Any0 Space, Times 3 Digit, Any0 Space]) no_flags (strip q) \<noteq> None
             then Some (strip q) else None))"

definition extract_table_token :: "string \<Rightarrow> string option" where
  "extract_table_token query =
     (case re_search
             (Seqs [WordB, Lits ''table'', Any0 Space,
                    Grp 1 (Alt (Seqs [Times 3 Digit, Lit CHR ''.'', Times 2 Digit, Lit CHR ''.'',
                                      Times 2 Digit, Lit CHR ''-'', Some1 Digit])
                               (Seqs [Times 3 Digit, Lit CHR ''.'', Times 2 Digit, Lit CHR ''-'',
                                      Some1 Digit])),
                    WordB]) icase query of
        Some m \<Rightarrow> group m 1
      | None \<Rightarrow> None)"

subsection \<open>Relevance of a hit\<close>

definition STOPWORDS :: "string list" where
  "STOPWORDS = [''what'', ''requirement'', ''section'', ''sections'', ''the'', ''a'', ''an'', ''for'',
                ''of'', ''is'', ''are'', ''in'', ''to'', ''and'', ''does'', ''say'', ''about'']"

text \<open>
  \<^verbatim>\<open>_tokenize_relevance\<close> returns a Python set; it is the list of its distinct elements here.
  The source only tests membership in it, counts it and intersects it, so the order of
  the list is immaterial.
\<close>

definition tokenize_relevance :: "string \<Rightarrow> string list" where
  "tokenize_relevance txt =
     remdups (filter (\<lambda>t. \<not> List.member STOPWORDS t \<and> 3 \<le> length t)
                (re_findall (Some1 (Set True [CChars lower_chars, CDigit])) no_flags (lower txt)))"

definition extract_section_pattern :: "string \<Rightarrow> string option" where
  "extract_section_pattern query =
     map_option r_text (re_search (Seqs [WordB, section_dot_rx, WordB]) no_flags query)"

text \<open>The token overlap \<^verbatim>\<open>q_tokens & s_tokens\<close> of a query and a text.\<close>

definition token_overlap :: "string \<Rightarrow> string \<Rightarrow> string list" where
  "token_overlap query txt =
     filter (List.member (tokenize_relevance txt)) (tokenize_relevance query)"

definition is_relevant_hit :: "string \<Rightarrow> hit \<Rightarrow> bool" where
  "is_relevant_hit q hit =
     (if (case extract_section_pattern q of
            Some section_pat \<Rightarrow> section_pat \<noteq> [] \<and> startswith (or_empty (h_section_id hit)) section_pat
          | None \<Rightarrow> False)
      then True
      else let q_tokens = tokenize_relevance q
           in if q_tokens = [] then False
              else let snippet = lower (h_snippet hit)
                   in if list_ex (contains snippet) q_tokens then True
                      else 2 \<le> length (token_overlap q snippet))"

definition weak_msg :: string where
  "weak_msg =
     ''Insufficient Evidence. I couldn'' @ [rsquo] @
     ''t find a reliable answer in the provided NJDOT manuals for that question. '' @
     ''Try rephrasing using a section number, exact term, or MP ID, or switch to Sources Only.''"

definition weak_response :: "hit list \<Rightarrow> string \<Rightarrow> ask_result" where
  "weak_response hits query =
     (case hits of
        [] \<Rightarrow> result ''weak'' weak_msg []
      | top_hit # _ \<Rightarrow>
          if \<not> is_relevant_hit query top_hit then result ''weak'' weak_msg []
          else let snippet = strip (h_snippet top_hit)
               in if snippet = [] then result ''weak'' weak_msg []
                  else result ''weak'' (''Closest match from NJDOT manuals: '' @ snippet @ '' [1]'')
                         (take 1 hits))"

definition llm_fallback_answer :: "hit list \<Rightarrow> ask_result" where
  "llm_fallback_answer hits =
     (case hits of
        [] \<Rightarrow> result ''low'' ''Insufficient Evidence.'' []
      | h # _ \<Rightarrow>
          let snippet = strip (h_snippet h);
              answer = (if snippet \<noteq> []
                        then (if endswith snippet '']'' then snippet else snippet @ '' [1]'')
                        else ''Insufficient Evidence in retrieved sources. [1]'')
          in result ''medium'' answer (take 1 hits))"

subsection \<open>Source block and ranking of hits\<close>

text \<open>
  \<^verbatim>\<open>_format_sources_compact\<close>: one block per hit, numbered from 1, the blocks joined by a
  line break.
\<close>

definition format_source_compact :: "nat \<Rightarrow> hit \<Rightarrow> string" where
  "format_source_compact i h =
     ''[SOURCE '' @ str_nat i @ '']'' @ [newline] @
     ''Section: '' @ or_empty (h_section_id h) @ [newline] @
     ''Pages: '' @ str_int (h_page_start h) @ ''-'' @ str_int (h_page_end h) @ [newline] @
     ''Excerpt:'' @ [newline] @
     h_snippet h @ [newline]"

definition format_sources_compact :: "hit list \<Rightarrow> string" where
  "format_sources_compact hits =
     join [newline] (map (\<lambda>(i, h). format_source_compact (Suc i) h) (enumerate 0 hits))"

definition user_prompt :: "string \<Rightarrow> string \<Rightarrow> string" where
  "user_prompt q sources_text =
     ''QUESTION:'' @ [newline] @ q @ [newline] @ [newline] @
     ''SOURCES:'' @ [newline] @ sources_text @ [newline]"

text \<open>The pattern \<^verbatim>\<open>(\$?\d[\d,]*(?:\.\d+)?|\b\d+%\b|percent)\<close>.\<close>

definition quantity_rx :: rx where
  "quantity_rx =
     Grp 1 (Alts [Seqs [Maybe (Lit CHR ''$''), Digit, Any0 (Set True [CDigit, CChars '','']),
                        Maybe (Seq (Lit CHR ''.'') (Some1 Digit))],
                  Seqs [WordB, Some1 Digit, Lit CHR ''%'', WordB],
                  Lits ''percent''])"

definition keyword_overlap_score :: "string \<Rightarrow> hit \<Rightarrow> int" where
  "keyword_overlap_score query hit =
     (let tokens = tokenize_relevance query
      in if tokens = [] then 0
         else let txt = lower (or_empty (h_heading hit) @ '' '' @ h_snippet hit);
                  score = int (length (filter (contains txt) tokens));
                  numeric_intent =
                    (list_ex (contains (lower query))
                       [''minimum'', ''limit'', ''limits'', ''percent'', ''percentage'', ''days'', ''day'',
                        ''$'', ''per occurrence'']
                     \<or> found Digit no_flags query);
                  score = (if numeric_intent \<and> found quantity_rx no_flags txt then score + 2 else score);
                  score = (if (contains (lower query) ''liability'' \<or> contains (lower query) ''insurance'')
                              \<and> (contains txt ''comprehensive general liability''
                                   \<or> contains txt ''general liability'')
                           then score + 3 else score)
              in score)"

definition statute_hit_score :: "hit \<Rightarrow> nat" where
  "statute_hit_score h =
     (let txt = lower (or_empty (h_heading h) @ '' '' @ h_snippet h @ '' '' @ text_or_empty h)
      in length (filter (contains txt)
                   [''52:32-40'', ''52:32-41'', ''prime rate'', ''plus 1 percent'', ''tenth day'',
                    ''interest begins to accrue'']))"

text \<open>
  \<^verbatim>\<open>_extract_prompt_payment_days\<close>: group 1 of the first of the three patterns that is found.
\<close>

definition payment_days_patterns :: "rx list" where
  "payment_days_patterns =
     [Seqs [Lits ''not paid within'', Some1 Space, Grp 1 (Some1 Digit), Some1 Space, Lits ''days''],
      Seqs [Lits ''within'', Some1 Space, Grp 1 (Some1 Digit), Some1 Space,
            Lits ''days after receipt''],
      Seqs [Lits ''within'', Some1 Space, Grp 1 (Some1 Digit), Some1 Space,
            Lits ''days of receipt'']]"

definition extract_prompt_payment_days :: "string \<Rightarrow> string option" where
  "extract_prompt_payment_days txt =
     (if txt = [] then None
      else (case List.map_filter (\<lambda>pat. re_search pat icase txt) payment_days_patterns of
              [] \<Rightarrow> None
            | m # _ \<Rightarrow> group m 1))"

subsection \<open>Clean-up of the answer text\<close>

definition safe_confidence :: "string \<Rightarrow> string \<Rightarrow> string" where
  "safe_confidence conf answer =
     (let a = lower answer
      in if contains a (''couldn'' @ [rsquo] @ ''t find'')
            \<or> contains a ''could not find''
            \<or> contains a ''not present in sources''
            \<or> contains a ''not contained in sources''
            \<or> contains a ''insufficient evidence''
         then ''weak'' else conf)"

text \<open>The class \<^verbatim>\<open>[A-Z0-9\s\-/]\<close>.\<close>

definition caps_rx :: rx where
  "caps_rx = Set True [CChars upper_chars, CDigit, CSpace, CChars ''-/'']"

definition make_answer_user_friendly :: "string \<Rightarrow> string" where
  "make_answer_user_friendly answer =
     (if answer = [] then answer
      else let a = sub_const (Seqs [Bol, Any0 Space, section_num_rx, Some1 Space]) no_flags [] answer;
               a = sub_const (Seqs [Bol, Any0 Space, OneOf upper_chars, AtLeast 6 caps_rx,
                                    Lit CHR '':'', Any0 Space]) no_flags [] a;
               a = sub_const (Seqs [Bol, Any0 Space, OneOf upper_chars, AtLeast 6 caps_rx,
                                    Some1 Space, Lit CHR ''-'', Any0 Space]) no_flags [] a;
               a = sub_const (Seqs [WordB, Lits ''specified in'', Some1 Space, section_dot_rx, WordB])
                     icase ''specified in the NJDOT manual'' a;
               a = sub_const (Seqs [WordB, Lits ''in'', Some1 Space, section_dot_rx, WordB])
                     icase ''in the NJDOT manual'' a;
               a = sub_const (Seqs [WordB, Lits ''specified in the NJDOT manual as:'', Any0 Space])
                     icase [] a
           in a)"

text \<open>
  The three substitutions that close \<^verbatim>\<open>_strip_answer_metadata\<close> and \<^verbatim>\<open>_polish_answer_text\<close>:
  \<^verbatim>\<open>\s+([,.;:])\<close> to \<^verbatim>\<open>\1\<close>, \<^verbatim>\<open>([,.;:])\s*,\<close> to \<^verbatim>\<open>\1\<close>, and \<^verbatim>\<open>\s{2,}\<close> to one space.
\<close>

definition squeeze_spaces :: "string \<Rightarrow> string" where
  "squeeze_spaces a = sub_const (AtLeast 2 Space) no_flags '' '' a"

definition tidy_punctuation :: "string \<Rightarrow> string" where
  "tidy_punctuation a =
     (let a = sub_group1 (Seq (Some1 Space) (Grp 1 (OneOf '',.;:''))) no_flags a;
          a = sub_group1 (Seqs [Grp 1 (OneOf '',.;:''), Any0 Space, Lit CHR '','']) no_flags a
      in squeeze_spaces a)"

definition strip_answer_metadata :: "string \<Rightarrow> string \<Rightarrow> string" where
  "strip_answer_metadata answer query =
     (if answer = [] then answer
      else let a = strip (sub_const (Seqs [Any0 Space, Lit CHR ''['', Some1 Digit, Lit CHR '']'',
                                           Any0 Space]) no_flags '' '' answer);
               a = sub_const (Seqs [Any0 Space, Maybe (OneOf ''(['' ), Any0 Space, Lits ''source'',
                                    Any0 Space, Some1 Digit, Any0 Space, Maybe (OneOf '')]''),
                                    Any0 Space]) icase '' '' a;
               a = sub_const (Seqs [WordB, Lits ''source'', Any0 Space, Lit CHR '':'', Any0 Space])
                     icase [] a
           in if question_asks_for_section_or_page query
              then strip_chars '' ,.;:'' (squeeze_spaces a)
              else let a = sub_const (Seqs [WordB,
                                            Grp 1 (Alts [Lits ''as specified in'', Lits ''per'',
                                                         Lits ''in'', Lits ''see'']),
                                            Some1 Space, Lits ''section'', Some1 Space,
                                            section_num_rx, WordB]) icase [] a;
                       a = sub_const (Seqs [WordB, Lits ''section'', Some1 Space, section_num_rx,
                                            WordB]) icase [] a;
                       a = sub_const (Seqs [WordB, Lits ''page'', Maybe (Lit CHR ''s''), Some1 Space,
                                            Some1 Digit, Any0 Space, OneOf [CHR ''-'', en_dash],
                                            Any0 Space, Some1 Digit, WordB]) icase [] a;
                       a = sub_const (Seqs [WordB, Lits ''page'', Some1 Space, Some1 Digit, WordB])
                             icase [] a
                   in strip_chars '' ,.;:'' (tidy_punctuation a))"

text \<open>The tail \<^verbatim>\<open>[\.!\s]*$\<close>.\<close>

definition trailing_rx :: rx where
  "trailing_rx = Seq (Any0 (Set True [CChars ''.!'', CSpace])) Eol"

definition polish_answer_text :: "string \<Rightarrow> string" where
  "polish_answer_text answer =
     (if answer = [] then answer
      else let a = sub_const (Seqs [WordB,
                                    Grp 1 (Alts [Lits ''according to'', Lits ''as stated in'',
                                                 Lits ''as specified in'']),
                                    WordB, Maybe (Seq (Some1 Space) (Lits ''the'')), Some1 Space,
                                    Grp 2 (Alt (Seq (Lits ''source'') (Maybe (Lit CHR ''s'')))
                                               (Lits ''source'')),
                                    WordB]) icase [] answer;
               a = sub_const (Seqs [WordB,
                                    Grp 1 (Alts [Lits ''stated in the source'', Lits ''provided sources'',
                                                 Lits ''the sources say'']),
                                    WordB]) icase [] a;
               a = sub_const (Seqs [WordB, Lits ''according to'', Maybe (Lits '' the provided sources''),
                                    Maybe (Lit CHR ''.''), Eol]) icase [] (strip a);
               a = sub_const (Seqs [WordB, Lits ''this is specified'', Maybe (Lits '' in''),
                                    Maybe (Lit CHR ''.''), Eol]) icase [] (strip a);
               a = sub_const (Seqs [WordB, Lits ''this is stated'', Maybe (Lits '' in''),
                                    Maybe (Lit CHR ''.''), Eol]) icase [] (strip a);
               a = sub_const (Seqs [WordB, Lits ''as stated in'', Maybe (Lit CHR ''.''), Eol])
                     icase [] (strip a);
               a = sub_const (Seqs [WordB, Lits ''this is specified in'', WordB, Eol])
                     icase [] (strip a);
               a = sub_const (Seqs [WordB, Lits ''this requirement is specified'',
                                    Maybe (Alt (Lits '' in'') (Lits '' by'')), WordB, trailing_rx])
                     icase [] (strip a);
               a = sub_const (Seqs [WordB, Lits ''this requirement is stated'', WordB, trailing_rx])
                     icase [] (strip a);
               a = strip (tidy_punctuation a)
           in if a \<noteq> [] \<and> found (Seq AlNum Eol) no_flags a then a @ ''.'' else a)"

subsection \<open>Section excerpts\<close>

definition select_section_hits :: "hit list \<Rightarrow> hit list" where
  "select_section_hits hits =
     (if hits = [] then [] else take (min 6 (max 4 (length hits))) hits)"

definition trim_snippet :: "string \<Rightarrow> string" where
  "trim_snippet txt =
     (let s = strip txt
      in if 600 < length s then rstrip (take 600 s) @ ''...'' else s)"

definition section_excerpt_line :: "nat \<Rightarrow> hit \<Rightarrow> string" where
  "section_excerpt_line idx h =
     (let heading = strip (or_empty (h_heading h));
          pages = (if h_page_end h \<noteq> 0 \<and> h_page_end h \<noteq> h_page_start h
                   then ''pp. '' @ str_int (h_page_start h) @ ''-'' @ str_int (h_page_end h)
                   else ''p. '' @ str_int (h_page_start h));
          snippet = trim_snippet (h_snippet h)
      in if heading \<noteq> []
         then ''['' @ str_nat idx @ ''] '' @ heading @ '' ('' @ pages @ ''): '' @ snippet
         else ''['' @ str_nat idx @ ''] ('' @ pages @ ''): '' @ snippet)"

definition build_section_excerpt :: "string option \<Rightarrow> hit list \<Rightarrow> string" where
  "build_section_excerpt section_id hits =
     (let section_label =
            (if truthy section_id then or_empty section_id
             else if hits \<noteq> [] \<and> truthy (h_section_id (hd hits)) then or_empty (h_section_id (hd hits))
             else ''Section'')
      in strip (join [newline]
           ((section_label @ '' '' @ [em_dash] @ '' Relevant excerpts from NJDOT manuals:'')
            # map (\<lambda>(i, h). section_excerpt_line (Suc i) h) (enumerate 0 hits))))"

subsection \<open>Table answers\<close>

definition normalize_table_text :: "string \<Rightarrow> string" where
  "normalize_table_text txt =
     strip (sub_const (Some1 Space) no_flags '' ''
              (replace_char em_dash ''-'' (replace_char en_dash ''-'' (lower txt))))"

definition build_table_link_answer :: "string \<Rightarrow> string" where
  "build_table_link_answer label = label @ [newline]"

definition is_junk_table_label :: "string \<Rightarrow> bool" where
  "is_junk_table_label label =
     (re_match (Seqs [Bol, Lits ''table'', Any0 Space, Lits ''(p.'', Any0 Space, Some1 Digit,
                      Lit CHR '')'', Any0 Space, Lit CHR ''#'', Some1 Digit, Eol])
        no_flags (lower (strip label)) \<noteq> None)"

text \<open>The pattern \<^verbatim>\<open>\d{3}\.\d{2}(?:\.\d{2})?-\d+\<close> of a table number.\<close>

definition table_number_rx :: rx where
  "table_number_rx = Seqs [section_dot_rx, Lit CHR ''-'', Some1 Digit]"

definition extract_table_number_and_title :: "string \<Rightarrow> string option \<times> string option" where
  "extract_table_number_and_title txt =
     (if txt = [] then (None, None)
      else (case re_search
                   (Seqs [WordB, Lits ''table'', Any0 Space, Grp 1 table_number_rx, WordB,
                          Maybe (Seqs [Any0 Space, OneOf [CHR ''-'', em_dash, en_dash, CHR '':''],
                                       Any0 Space,
                                       Grp 2 (Some1 (Set False [CChars [CHR 0x0A, CHR 0x0D]]))])])
                   icase txt of
              None \<Rightarrow> (None, None)
            | Some m \<Rightarrow>
                let title = strip (or_empty (group m 2));
                    title = (if title \<noteq> []
                             then strip (sub_const
                                    (Seqs [Any0 Space, Lits ''(p.'', Any0 Space, Some1 Digit,
                                           Lit CHR '')'', Any0 Space, Lit CHR ''#'', Some1 Digit,
                                           Any0 Space, Eol]) icase [] title)
                             else title)
                in (group m 1, if title \<noteq> [] then Some title else None)))"

text \<open>
  One round of the loop over the text candidates in \<^verbatim>\<open>_build_table_display_title\<close>.  The
  loop is entered unless number and title are both known, and it stops as soon as they
  are; so a round that finds both known changes nothing.
\<close>

definition title_round :: "string option \<times> string option \<Rightarrow> string \<Rightarrow> string option \<times> string option" where
  "title_round nt txt =
     (let number = fst nt; title = snd nt
      in if truthy number \<and> truthy title then nt
         else let found_nt = extract_table_number_and_title txt;
                  number = (if \<not> truthy number \<and> truthy (fst found_nt) then fst found_nt else number);
                  title = (if \<not> truthy title \<and> truthy (snd found_nt) then snd found_nt else title)
              in (number, title))"

definition build_table_display_title :: "string option \<Rightarrow> string \<Rightarrow> string list \<Rightarrow> string" where
  "build_table_display_title table_token meta_label text_candidates =
     (let usable = (meta_label \<noteq> [] \<and> \<not> is_junk_table_label meta_label);
          nt = (if usable then extract_table_number_and_title meta_label else (None, None));
          nt = (if truthy (fst nt) then nt else (None, snd nt));
          nt = (if truthy table_token then (table_token, snd nt) else nt);
          nt = foldl title_round nt text_candidates
      in if truthy (fst nt) \<and> truthy (snd nt)
         then ''Table '' @ or_empty (fst nt) @ '' '' @ [em_dash] @ '' '' @ or_empty (snd nt)
         else if truthy (fst nt) then ''Table '' @ or_empty (fst nt)
         else if usable then strip meta_label
         else ''Table'')"

text \<open>
  \<^verbatim>\<open>_top_table_block\<close>: the table with the most hits, the first such table in the order of
  the hits (the dict \<^verbatim>\<open>by_uid\<close> keeps its keys in insertion order, and \<^verbatim>\<open>max\<close> returns the
  first maximal key), with up to eight of its hits.
\<close>

definition first_occurrences :: "'a list \<Rightarrow> 'a list" where
  "first_occurrences xs = rev (remdups (rev xs))"

definition top_table_block :: "hit list \<Rightarrow> string option \<times> string option \<times> hit list" where
  "top_table_block hits =
     (let table_hits = filter (\<lambda>h. truthy (h_table_uid h)) hits
      in if table_hits = [] then (None, None, [])
         else let by_uid = (\<lambda>uid. filter (\<lambda>h. h_table_uid h = uid) table_hits);
                  uids = first_occurrences (map h_table_uid table_hits);
                  best_uid = foldl (\<lambda>best uid. if length (by_uid best) < length (by_uid uid)
                                                then uid else best) (hd uids) (tl uids);
                  rows = take 8 (by_uid best_uid);
                  label = (if truthy (h_table_label (hd rows)) then or_empty (h_table_label (hd rows))
                           else ''Table'')
              in (best_uid, Some label, rows))"

definition is_materials_heading :: "hit \<Rightarrow> bool" where
  "is_materials_heading h = contains (lower (or_empty (h_heading h))) ''materials''"

definition looks_like_list_table_snippet :: "string \<Rightarrow> bool" where
  "looks_like_list_table_snippet s =
     (if contains s ''Provide materials as specified in'' then True
      else if 3 \<le> count_sub s ''...'' then True
      else let rows = filter (\<lambda>l. l \<noteq> []) (map strip (splitlines s))
           in 4 \<le> length rows \<and> 3 \<le> length (filter (\<lambda>l. length l \<le> 80) rows))"

subsection \<open>The surroundings of the orchestrator\<close>

text \<open>\<^verbatim>\<open>TableMeta\<close> (tables.py).\<close>

record table_meta =
  tm_table_uid :: string
  tm_document_id :: int
  tm_filename :: string
  tm_display_name :: string
  tm_doc_type :: string
  tm_mp_id :: "string option"
  tm_section_id :: "string option"
  tm_page_number :: int
  tm_table_index_on_page :: int
  tm_table_label :: string

text \<open>
  The retrieval stage of \<^verbatim>\<open>_ask_question_inner\<close> (the explicit table lookup, the exact section
  and section prefix lookups, the hybrid search and the hydration of the snippets) reads
  the document store and the search indexes.  It ends in one of three ways: it raises, it
  returns a response of its own, or it hands the hits and the retrieval confidence on to
  the answer stage.
\<close>

datatype retrieval = Answered ask_result | Retrieved "hit list" string

text \<open>
  What the orchestrator calls outside ask.py: the retrieval stage above; the row count of a
  table in the store (the query of \<^verbatim>\<open>_table_has_enough_rows\<close>) and \<^verbatim>\<open>get_table_meta\<close>, which
  can raise a storage error; \<^verbatim>\<open>urllib.parse.quote\<close>; \<^verbatim>\<open>get_llm\<close>, which raises when the
  provider is not configured; and \<^verbatim>\<open>llm.chat\<close> on the synthesis prompt and a user prompt,
  which raises when the provider fails.
\<close>

record env =
  e_retrieval :: "string \<Rightarrow> string \<Rightarrow> string list option \<Rightarrow> int \<Rightarrow> string \<Rightarrow> py_error + retrieval"
  e_count_table_rows :: "string \<Rightarrow> py_error + int"
  e_get_table_meta :: "string \<Rightarrow> py_error + table_meta option"
  e_quote :: "string \<Rightarrow> string"
  e_get_llm :: "py_error + unit"
  e_chat :: "string \<Rightarrow> py_error + string"

definition table_has_enough_rows :: "env \<Rightarrow> string \<Rightarrow> int \<Rightarrow> py_error + bool" where
  "table_has_enough_rows env table_uid min_rows =
     (case e_count_table_rows env table_uid of
        Inl err \<Rightarrow> Inl err
      | Inr n \<Rightarrow> Inr (min_rows \<le> n))"

text \<open>
  The response with a table block, which the source builds in the same way at each of its
  table answers: the display title from the table token, the label and the text
  candidates, the file name of the table or else of the hit, and the link to the page.
\<close>

definition table_answer ::
  "env \<Rightarrow> string \<Rightarrow> string option \<Rightarrow> string \<Rightarrow> table_meta \<Rightarrow> string \<Rightarrow> string list \<Rightarrow> string
     \<Rightarrow> hit list \<Rightarrow> ask_result" where
  "table_answer env conf table_token table_uid meta meta_label text_candidates hit_filename hits =
     (let page = tm_page_number meta;
          label = build_table_display_title table_token meta_label text_candidates;
          filename = (if tm_filename meta \<noteq> [] then tm_filename meta else hit_filename);
          open_url = ''/documents/file?filename='' @ e_quote env filename @ ''#page='' @ str_int page
      in \<lparr>ar_confidence = conf, ar_answer = build_table_link_answer label, ar_hits = hits,
          ar_table = Some \<lparr>at_table_uid = table_uid, at_table_label = label, at_page_number = page,
                            at_open_url = open_url, at_filename = filename,
                            at_display_name = tm_display_name meta\<rparr>\<rparr>)"

text \<open>
  The table answer for a hit whose table has at least two rows and is known to the store;
  \<open>None\<close> otherwise.  Reading the attribute \<^verbatim>\<open>text\<close> of the hit for the text candidates
  raises on a \<^verbatim>\<open>HybridChunkHit\<close>.
\<close>

definition table_answer_for ::
  "env \<Rightarrow> string \<Rightarrow> string option \<Rightarrow> string \<Rightarrow> hit \<Rightarrow> hit list \<Rightarrow> py_error + ask_result option" where
  "table_answer_for env conf table_token table_uid h hits =
     (case table_has_enough_rows env table_uid 2 of
        Inl err \<Rightarrow> Inl err
      | Inr False \<Rightarrow> Inr None
      | Inr True \<Rightarrow>
         (case e_get_table_meta env table_uid of
            Inl err \<Rightarrow> Inl err
          | Inr None \<Rightarrow> Inr None
          | Inr (Some meta) \<Rightarrow>
             (case text_attr h of
                Inl err \<Rightarrow> Inl err
              | Inr txt \<Rightarrow>
                  Inr (Some (table_answer env conf table_token table_uid meta (tm_table_label meta)
                               [tm_table_label meta, or_empty (h_heading h), h_snippet h, txt]
                               (h_filename h) hits)))))"

subsection \<open>The answer stage before synthesis\<close>

text \<open>
  The answers of \<^verbatim>\<open>_ask_question_inner\<close> that come straight after retrieval: the mode
  \<^verbatim>\<open>sources_only\<close>, a bare section number, and a question for a section or a page.
\<close>

definition early_answer :: "string \<Rightarrow> string \<Rightarrow> string \<Rightarrow> hit list \<Rightarrow> ask_result option" where
  "early_answer q mode conf hits =
     (if mode = ''sources_only''
      then Some (result conf ''Sources only: see citations on the right.'' hits)
      else if mode = ''answer'' \<and> is_bare_section_id_query q
      then Some (result conf (''See the citations panel for Section '' @ strip q @ ''.'') hits)
      else if mode = ''answer'' \<and> question_asks_for_section_or_page q \<and> \<not> is_bare_section_id_query q
      then Some (result conf ''See the citations panel'' hits)
      else None)"

text \<open>The chunk kinds \<^verbatim>\<open>low_value_kinds\<close>.\<close>

definition low_value :: "hit \<Rightarrow> bool" where
  "low_value h = List.member [Some ''table_row'', Some ''toc'', Some ''front_matter''] (h_chunk_kind h)"

text \<open>
  The hits after the table rows are dropped (unless the query asks for a table) and the
  content chunks are put first.
\<close>

definition arrange_hits :: "string \<Rightarrow> string \<Rightarrow> int \<Rightarrow> hit list \<Rightarrow> hit list" where
  "arrange_hits q mode k hits0 =
     (let table_intent = looks_like_table_query q;
          hits = (if \<not> table_intent then filter (\<lambda>h. h_chunk_kind h \<noteq> Some ''table_row'') hits0
                  else hits0)
      in if mode = ''answer'' \<and> \<not> table_intent \<and> \<not> is_section_intent q
         then let preferred = filter (\<lambda>h. \<not> low_value h) hits;
                  low = filter low_value hits
              in if preferred \<noteq> []
                 then (if k \<le> int (length preferred) then py_take k preferred @ low
                       else let allowed_low_value = nat (min 1 (max 0 (k - int (length preferred))))
                            in preferred @ take allowed_low_value low @ drop allowed_low_value low)
                 else hits
         else hits)"

definition section_empty_msg :: string where
  "section_empty_msg =
     ''Insufficient Evidence. I couldn'' @ [rsquo] @ ''t find that section in the provided manuals.''"

definition section_intent_answer :: "string \<Rightarrow> string \<Rightarrow> hit list \<Rightarrow> ask_result option" where
  "section_intent_answer q conf hits =
     (if is_section_intent q \<and> \<not> looks_like_table_query q \<and> \<not> question_asks_for_section_or_page q
      then (if hits = [] then Some (result ''weak'' section_empty_msg [])
            else let exact = extract_exact_section_id q;
                     section_label = (if truthy exact then exact else extract_section_prefix q);
                     merged_hits = select_section_hits hits
                 in Some (result conf (build_section_excerpt section_label merged_hits) merged_hits))
      else None)"

text \<open>
  The branch for a query that names a table.  It always returns.  (The source also
  reorders \<^verbatim>\<open>hits\<close> in this branch, but no path of the branch reads them afterwards.)
\<close>

definition hit_table_text :: "hit \<Rightarrow> string" where
  "hit_table_text h =
     normalize_table_text (or_empty (h_heading h) @ '' '' @ h_snippet h @ '' '' @ text_or_empty h)"

definition table_token_answer :: "env \<Rightarrow> string \<Rightarrow> string \<Rightarrow> string \<Rightarrow> hit list \<Rightarrow> py_error + ask_result" where
  "table_token_answer env q conf table_token hits =
     (let token_only = normalize_table_text table_token;
          token_regex = Seqs [WordB, Lits ''table'', Any0 Space, Lits token_only, WordB];
          matches = filter (\<lambda>h. contains (hit_table_text h) token_only
                                 \<or> found token_regex icase (hit_table_text h)) hits
      in case matches of
           [] \<Rightarrow> Inr (weak_response [] q)
         | m0 # _ \<Rightarrow>
            (case (case filter (\<lambda>h. truthy (h_table_uid h)) matches of
                     [] \<Rightarrow> Inr None
                   | h # _ \<Rightarrow> table_answer_for env conf (Some table_token) (or_empty (h_table_uid h))
                                m0 [m0]) of
               Inl err \<Rightarrow> Inl err
             | Inr (Some r) \<Rightarrow> Inr r
             | Inr None \<Rightarrow>
                 let snippet = strip (h_snippet m0)
                 in if snippet \<noteq> []
                    then let snippet = (if \<not> contains (normalize_table_text snippet) token_only
                                        then ''Table '' @ table_token @ '': '' @ snippet
                                        else snippet)
                         in Inr (result conf (if endswith snippet '']'' then snippet
                                              else snippet @ '' [1]'') [m0])
                    else Inr (weak_response [] q)))"

text \<open>The table answer when the top hit belongs to a table and the query asks for one.\<close>

definition top_hit_table_answer ::
  "env \<Rightarrow> string \<Rightarrow> string option \<Rightarrow> hit list \<Rightarrow> py_error + ask_result option" where
  "top_hit_table_answer env q table_token hits =
     (case hits of
        [] \<Rightarrow> Inr None
      | h # _ \<Rightarrow>
          if truthy (h_table_uid h) \<and> looks_like_table_query q
          then table_answer_for env ''strong'' table_token (or_empty (h_table_uid h)) h (take 1 hits)
          else Inr None)"

text \<open>The snippet of a chunk that holds the header and the numbers of the table asked for.\<close>

definition looks_like_real_table_chunk :: "string \<Rightarrow> hit \<Rightarrow> bool" where
  "looks_like_real_table_chunk token h =
     (let s = lower (h_snippet h)
      in if \<not> contains s (''table '' @ token) then False
         else 25 \<le> length (filter is_digit s))"

definition cited_snippet :: "string \<Rightarrow> string" where
  "cited_snippet snippet =
     (let ans = strip snippet in if endswith ans '']'' then ans else ans @ '' [1]'')"

definition table_header_answer :: "string \<Rightarrow> string \<Rightarrow> hit list \<Rightarrow> ask_result option" where
  "table_header_answer q conf hits =
     (case re_search (Seqs [WordB, Lits ''table'', Any0 Space,
                            Grp 1 (Seqs [Times 3 Digit, Lit CHR ''.'', Times 2 Digit, Lit CHR ''-'',
                                         Some1 Digit]),
                            WordB]) no_flags (lower q) of
        None \<Rightarrow> None
      | Some m \<Rightarrow>
          if hits = [] then None
          else (case filter (looks_like_real_table_chunk (or_empty (group m 1))) hits of
                  [] \<Rightarrow> None
                | best # _ \<Rightarrow> Some (result conf (cited_snippet (h_snippet best)) [best])))"

definition materials_answer :: "string \<Rightarrow> hit list \<Rightarrow> ask_result option" where
  "materials_answer conf hits =
     (case hits of
        [] \<Rightarrow> None
      | h # _ \<Rightarrow>
          if is_materials_heading h \<and> looks_like_list_table_snippet (h_snippet h)
          then Some (result conf (cited_snippet (h_snippet h)) (take 1 hits))
          else None)"

definition table_block_answer ::
  "env \<Rightarrow> string \<Rightarrow> string \<Rightarrow> string option \<Rightarrow> hit list \<Rightarrow> py_error + ask_result option" where
  "table_block_answer env q conf table_token hits =
     (case top_table_block hits of
        (table_uid, table_label, table_rows) \<Rightarrow>
          if table_rows \<noteq> [] \<and> looks_like_table_query q
          then (case (if truthy table_uid then e_get_table_meta env (or_empty table_uid)
                      else Inr None) of
                  Inl err \<Rightarrow> Inl err
                | Inr None \<Rightarrow> Inr None
                | Inr (Some meta) \<Rightarrow>
                   (case text_attr (hd table_rows) of
                      Inl err \<Rightarrow> Inl err
                    | Inr txt \<Rightarrow>
                        Inr (Some (table_answer env conf table_token (or_empty table_uid) meta
                                     (if tm_table_label meta \<noteq> [] then tm_table_label meta
                                      else or_empty table_label)
                                     [tm_table_label meta, or_empty table_label,
                                      or_empty (h_heading (hd table_rows)),
                                      h_snippet (hd table_rows), txt]
                                     (h_filename (hd table_rows)) table_rows))))
          else Inr None)"

text \<open>
  The answer stage up to synthesis: it raises, it returns a response, or it goes on to
  synthesis with the arranged hits.
\<close>

datatype step = Return ask_result | Continue "hit list"

definition before_synthesis :: "env \<Rightarrow> string \<Rightarrow> string \<Rightarrow> int \<Rightarrow> string \<Rightarrow> hit list \<Rightarrow> py_error + step" where
  "before_synthesis env q mode k conf hits0 =
     (case early_answer q mode conf hits0 of
        Some r \<Rightarrow> Inr (Return r)
      | None \<Rightarrow>
         (let hits = arrange_hits q mode k hits0;
              table_token = extract_table_token q
          in case section_intent_answer q conf hits of
               Some r \<Rightarrow> Inr (Return r)
             | None \<Rightarrow>
                if truthy table_token
                then (case table_token_answer env q conf (or_empty table_token) hits of
                        Inl err \<Rightarrow> Inl err
                      | Inr r \<Rightarrow> Inr (Return r))
                else if conf = ''weak'' \<or> hits = [] then Inr (Return (weak_response hits q))
                else (case top_hit_table_answer env q table_token hits of
                        Inl err \<Rightarrow> Inl err
                      | Inr (Some r) \<Rightarrow> Inr (Return r)
                      | Inr None \<Rightarrow>
                         (case table_header_answer q conf hits of
                            Some r \<Rightarrow> Inr (Return r)
                          | None \<Rightarrow>
                             (case materials_answer conf hits of
                                Some r \<Rightarrow> Inr (Return r)
                              | None \<Rightarrow>
                                 (case table_block_answer env q conf table_token hits of
                                    Inl err \<Rightarrow> Inl err
                                  | Inr (Some r) \<Rightarrow> Inr (Return r)
                                  | Inr None \<Rightarrow> Inr (Continue hits)))))))"

subsection \<open>Synthesis\<close>

text \<open>
  The hits whose excerpts go into the prompt: the content chunks by keyword overlap (for a
  question about interest on late payment, the chunks that quote the statute first), up to
  six of them, filled up to four from the other hits.
\<close>

definition rank_hits :: "string \<Rightarrow> hit list \<Rightarrow> hit list" where
  "rank_hits q preferred =
     (let scored = map (\<lambda>(idx, h). (idx, keyword_overlap_score q h, h)) (enumerate 0 preferred);
          ranked = map (\<lambda>(idx, score, h). h)
                     (sort_key (\<lambda>(idx, score, h). (- score, idx)) scored)
      in if is_prompt_payment_interest_intent q
         then let statute_ranked = sort_key (\<lambda>h. - int (statute_hit_score h)) ranked;
                  statute_strong = filter (\<lambda>h. 2 \<le> statute_hit_score h) statute_ranked
              in if statute_strong \<noteq> []
                 then statute_strong @ filter (\<lambda>h. \<not> List.member statute_strong h) ranked
                 else ranked
         else ranked)"

text \<open>
  The loop that fills the top hits up to four appends a hit that is not yet among them and
  stops at four; it starts below four, so a round that finds four has stopped.
\<close>

definition select_top_hits :: "string \<Rightarrow> hit list \<Rightarrow> hit list \<Rightarrow> hit list" where
  "select_top_hits q preferred hits =
     (let ranked = rank_hits q preferred;
          top_hits = take (min 6 (length ranked)) ranked
      in if length top_hits < 4
         then foldl (\<lambda>top_hits h. if 4 \<le> length top_hits then top_hits
                                   else if List.member top_hits h then top_hits
                                   else top_hits @ [h]) top_hits hits
         else top_hits)"

text \<open>The answer that is built without the model, for a question about interest on late payment.\<close>

definition deterministic_answer :: "string \<Rightarrow> hit list \<Rightarrow> string" where
  "deterministic_answer q top_hits =
     (if is_prompt_payment_interest_intent q
      then (case filter (\<lambda>h. 2 \<le> statute_hit_score h) top_hits of
              [] \<Rightarrow> []
            | statute_best # _ \<Rightarrow>
               (case extract_prompt_payment_days (text_or_empty statute_best @ '' '' @ h_snippet statute_best) of
                  None \<Rightarrow> []
                | Some days \<Rightarrow>
                    if days \<noteq> []
                    then ''Interest begins to accrue if the subcontractor is not paid within '' @ days @
                         '' days after receipt of payment.''
                    else []))
      else [])"

text \<open>The answer before the guard: the deterministic one, or else the model's, stripped.\<close>

definition draft_answer :: "env \<Rightarrow> string \<Rightarrow> hit list \<Rightarrow> string \<Rightarrow> py_error + string" where
  "draft_answer env q top_hits sources_text =
     (let answer = deterministic_answer q top_hits
      in if answer \<noteq> [] then Inr answer
         else (case e_chat env (user_prompt q sources_text) of
                 Inl err \<Rightarrow> Inl err
               | Inr out \<Rightarrow> Inr (strip out)))"

text \<open>
  The guard against numbers that the sources do not hold.  It looks at a query that
  mentions days, and it trips when the answer holds integers and none of them occurs in
  the lower-cased source block.
\<close>

definition days_question_rx :: rx where
  "days_question_rx =
     Alts [Seqs [WordB, Lits ''how many days'', WordB],
           Seqs [WordB, Lits ''within '', Some1 Digit, Lits '' days'', WordB],
           Seqs [WordB, Lits ''days'', WordB]]"

definition nums_in_answer :: "string \<Rightarrow> string list" where
  "nums_in_answer answer = remdups (re_findall (Seqs [WordB, Some1 Digit, WordB]) no_flags answer)"

definition numeric_guard_trips :: "string \<Rightarrow> string \<Rightarrow> string \<Rightarrow> bool" where
  "numeric_guard_trips q sources_text answer =
     (if found days_question_rx no_flags (lower q)
      then let src_blob = lower sources_text;
               nums = nums_in_answer answer
           in nums \<noteq> [] \<and> \<not> list_ex (contains src_blob) nums
      else False)"

text \<open>
  The body of the \<^verbatim>\<open>try\<close> statement: it raises, it returns a response, or it leaves an
  answer text.
\<close>

datatype draft = Returned ask_result | Draft string

definition try_block :: "env \<Rightarrow> string \<Rightarrow> hit list \<Rightarrow> string \<Rightarrow> hit list \<Rightarrow> py_error + draft" where
  "try_block env q top_hits sources_text hits =
     (case e_get_llm env of
        Inl err \<Rightarrow> Inl err
      | Inr llm \<Rightarrow>
          if is_time_limit_question q \<and> \<not> has_payment_days_phrase sources_text
          then Inr (Returned (result ''weak'' ''Insufficient Evidence.'' hits))
          else (case draft_answer env q top_hits sources_text of
                  Inl err \<Rightarrow> Inl err
                | Inr answer \<Rightarrow>
                    if numeric_guard_trips q sources_text answer
                    then Inr (Returned (llm_fallback_answer hits))
                    else Inr (Draft answer)))"

text \<open>
  The content chunks among the hits, the hits whose excerpts go into the prompt, and the
  source block of the prompt.
\<close>

definition preferred_hits :: "hit list \<Rightarrow> hit list" where
  "preferred_hits hits = filter (\<lambda>h. \<not> low_value h) hits"

definition prompt_hits :: "string \<Rightarrow> hit list \<Rightarrow> hit list" where
  "prompt_hits q hits = select_top_hits q (preferred_hits hits) hits"

definition sources_block :: "string \<Rightarrow> hit list \<Rightarrow> string" where
  "sources_block q hits = format_sources_compact (prompt_hits q hits)"

text \<open>
  Synthesis.  Without a content chunk it gives the weak response.  Both \<^verbatim>\<open>except\<close>
  clauses of the \<^verbatim>\<open>try\<close> statement return the fallback answer.
\<close>

definition synthesis :: "env \<Rightarrow> string \<Rightarrow> string \<Rightarrow> hit list \<Rightarrow> ask_result" where
  "synthesis env q conf hits =
     (if preferred_hits hits = [] then weak_response hits q
      else let top_hits = prompt_hits q hits;
               sources_text = sources_block q hits
           in case try_block env q top_hits sources_text hits of
                Inl err \<Rightarrow> llm_fallback_answer hits
              | Inr (Returned r) \<Rightarrow> r
              | Inr (Draft answer) \<Rightarrow>
                  result (safe_confidence conf answer)
                    (polish_answer_text
                       (strip_answer_metadata (make_answer_user_friendly answer) q))
                    hits)"

subsection \<open>The orchestrator\<close>

definition answer_stage :: "env \<Rightarrow> string \<Rightarrow> string \<Rightarrow> int \<Rightarrow> string \<Rightarrow> hit list \<Rightarrow> py_error + ask_result" where
  "answer_stage env q mode k conf hits0 =
     (case before_synthesis env q mode k conf hits0 of
        Inl err \<Rightarrow> Inl err
      | Inr (Return r) \<Rightarrow> Inr r
      | Inr (Continue hits) \<Rightarrow> Inr (synthesis env q conf hits))"

definition ask_question_inner ::
  "env \<Rightarrow> string \<Rightarrow> string \<Rightarrow> string list option \<Rightarrow> int \<Rightarrow> string \<Rightarrow> py_error + ask_result" where
  "ask_question_inner env query scope mp_ids k mode =
     (case e_retrieval env query scope mp_ids k mode of
        Inl err \<Rightarrow> Inl err
      | Inr (Answered r) \<Rightarrow> Inr r
      | Inr (Retrieved hits conf) \<Rightarrow> answer_stage env query mode k conf hits)"

text \<open>\<^verbatim>\<open>ask_question\<close>: whatever the inner function raises ends in the weak response.\<close>

definition ask_question ::
  "env \<Rightarrow> string \<Rightarrow> string \<Rightarrow> string list option \<Rightarrow> int \<Rightarrow> string \<Rightarrow> ask_result" where
  "ask_question env query scope mp_ids k mode =
     (case ask_question_inner env query scope mp_ids k mode of
        Inr r \<Rightarrow> r
      | Inl err \<Rightarrow> weak_response [] query)"

subsection \<open>Sample surroundings for the ask path\<close>

text \<open>
  A hit of the hybrid search with a given section number and snippet, and surroundings
  whose retrieval stage, \<^verbatim>\<open>get_llm\<close> and \<^verbatim>\<open>llm.chat\<close> end as given (the store holds no
  tables, and \<^verbatim>\<open>quote\<close> leaves a plain file name as it is).
\<close>

definition demo_hit :: "string option \<Rightarrow> string \<Rightarrow> hit" where
  "demo_hit section_id snippet =
     \<lparr>h_score = 0, h_chunk_id = 7, h_document_id = 1, h_filename = ''spec.pdf'',
      h_display_name = ''Spec'', h_doc_type = ''standspec'', h_mp_id = None,
      h_section_id = section_id, h_heading = None, h_page_start = 31, h_page_end = 31,
      h_snippet = snippet, h_chunk_kind = Some ''content'', h_table_uid = None,
      h_table_label = None, h_class = HybridChunkHit None None None\<rparr>"

definition demo_env :: "py_error + retrieval \<Rightarrow> py_error + unit \<Rightarrow> py_error + string \<Rightarrow> env" where
  "demo_env retrieved llm reply =
     \<lparr>e_retrieval = (\<lambda>query scope mp_ids k mode. retrieved),
      e_count_table_rows = (\<lambda>table_uid. Inr 0),
      e_get_table_meta = (\<lambda>table_uid. Inr None),
      e_quote = (\<lambda>s. s),
      e_get_llm = llm,
      e_chat = (\<lambda>prompt. reply)\<rparr>"

definition lift_hit :: hit where
  "lift_hit = demo_hit (Some ''401.03'') ''Place each lift at least 2 inches thick.''"

definition pay_hit :: hit where
  "pay_hit = demo_hit None ''Pay within 30 days after receipt of payment.''"

definition drain_hit :: hit where
  "drain_hit = demo_hit None ''Drainage pipe''"

section \<open>Properties of fusion and confidence\<close>

lemma contrib_absent: "key \<notin> set lst \<Longrightarrow> contrib k rank lst key = 0"
  by (induction lst arbitrary: rank) auto

lemma rrf_inner_result:
  "0 < k + rank \<Longrightarrow>
   rrf_inner k fused rank lst =
     Inr (\<lambda>key. if key \<in> set lst then Some (fused_get fused key + contrib k rank lst key)
                else fused key)"
proof (induction lst arbitrary: fused rank)
  case Nil
  then show ?case by simp
next
  case (Cons x xs)
  define fused' where "fused' = fused(x \<mapsto> fused_get fused x + 1 / real_of_int (k + rank))"
  have pos: "0 < k + (rank + 1)" using Cons.prems by simp
  have ne: "k + rank \<noteq> 0" using Cons.prems by simp
  have "rrf_inner k fused rank (x # xs) = rrf_inner k fused' (rank + 1) xs"
    using ne by (simp add: fused'_def)
  also have "\<dots> = Inr (\<lambda>key. if key \<in> set xs
                then Some (fused_get fused' key + contrib k (rank + 1) xs key)
                else fused' key)"
    by (rule Cons.IH [OF pos])
  also have "(\<lambda>key. if key \<in> set xs
                then Some (fused_get fused' key + contrib k (rank + 1) xs key)
                else fused' key) =
             (\<lambda>key. if key \<in> set (x # xs)
                then Some (fused_get fused key + contrib k rank (x # xs) key)
                else fused key)"
    by (auto simp: fun_eq_iff fused'_def fused_get_def contrib_absent)
  finally show ?case .
qed

lemma contrib_distinct:
  "distinct lst \<Longrightarrow> key \<in> set lst \<Longrightarrow>
   contrib k rank lst key = 1 / real_of_int (k + rank + int (rank_in key lst) - 1)"
proof (induction lst arbitrary: rank)
  case Nil
  then show ?case by simp
next
  case (Cons x xs)
  show ?case
  proof (cases "x = key")
    case True
    then have "key \<notin> set xs" using Cons.prems by simp
    then show ?thesis using True by (simp add: contrib_absent)
  next
    case False
    then have "key \<in> set xs" "distinct xs" using Cons.prems by simp_all
    then show ?thesis using False Cons.IH [of "rank + 1"] by (simp add: algebra_simps)
  qed
qed

lemma contrib_sum_absent:
  "\<forall>lst \<in> set rls. key \<notin> set lst \<Longrightarrow> (\<Sum>lst \<leftarrow> rls. contrib k rank lst key) = 0"
  by (induction rls) (simp_all add: contrib_absent)

lemma rrf_outer_result:
  "0 \<le> k \<Longrightarrow>
   rrf_outer k fused rls =
     Inr (\<lambda>key. if key \<in> \<Union>(set ` set rls)
                then Some (fused_get fused key + (\<Sum>lst \<leftarrow> rls. contrib k 1 lst key))
                else fused key)"
proof (induction rls arbitrary: fused)
  case Nil
  then show ?case by simp
next
  case (Cons l ls)
  define fused' where
    "fused' = (\<lambda>key. if key \<in> set l then Some (fused_get fused key + contrib k 1 l key)
                else fused key)"
  have pos: "0 < k + 1" using Cons.prems by simp
  have "rrf_outer k fused (l # ls) = rrf_outer k fused' ls"
    by (simp add: rrf_inner_result [OF pos] fused'_def)
  also have "\<dots> = Inr (\<lambda>key. if key \<in> \<Union>(set ` set ls)
                then Some (fused_get fused' key + (\<Sum>lst \<leftarrow> ls. contrib k 1 lst key))
                else fused' key)"
    by (rule Cons.IH [OF Cons.prems])
  also have "(\<lambda>key. if key \<in> \<Union>(set ` set ls)
                then Some (fused_get fused' key + (\<Sum>lst \<leftarrow> ls. contrib k 1 lst key))
                else fused' key) =
             (\<lambda>key. if key \<in> \<Union>(set ` set (l # ls))
                then Some (fused_get fused key + (\<Sum>lst \<leftarrow> l # ls. contrib k 1 lst key))
                else fused key)"
  proof (rule ext)
    fix key
    show "(if key \<in> \<Union>(set ` set ls)
                then Some (fused_get fused' key + (\<Sum>lst \<leftarrow> ls. contrib k 1 lst key))
                else fused' key) =
          (if key \<in> \<Union>(set ` set (l # ls))
                then Some (fused_get fused key + (\<Sum>lst \<leftarrow> l # ls. contrib k 1 lst key))
                else fused key)"
    proof (cases "key \<in> \<Union>(set ` set ls)")
      case True
      then show ?thesis
        by (cases "key \<in> set l") (auto simp: fused'_def fused_get_def contrib_absent)
    next
      case False
      then have "\<forall>lst \<in> set ls. key \<notin> set lst" by auto
      then have "(\<Sum>lst \<leftarrow> ls. contrib k 1 lst key) = 0" by (rule contrib_sum_absent)
      then show ?thesis using False
        by (cases "key \<in> set l") (auto simp: fused'_def)
    qed
  qed
  finally show ?case .
qed

lemma contrib_sum_spec:
  "\<forall>lst \<in> set rls. distinct lst \<Longrightarrow>
   (\<Sum>lst \<leftarrow> rls. contrib 60 1 lst key) = rrf_score_spec rls key"
proof (induction rls)
  case Nil
  then show ?case by (simp add: rrf_score_spec_def)
next
  case (Cons l ls)
  then have ih: "(\<Sum>lst \<leftarrow> ls. contrib 60 1 lst key) = rrf_score_spec ls key" by simp
  have dl: "distinct l" using Cons.prems by simp
  show ?case
  proof (cases "key \<in> set l")
    case True
    have "contrib 60 1 l key = 1 / (60 + real (rank_in key l))"
      using contrib_distinct [OF dl True, of 60 1] by (simp add: add.commute)
    then show ?thesis using True ih by (simp add: rrf_score_spec_def)
  next
    case False
    then show ?thesis using ih by (simp add: rrf_score_spec_def contrib_absent)
  qed
qed

text \<open>
  C6.  With \<open>k = 60\<close> the fusion never fails, and for ranked lists without repeated
  items the fused score of every item is the sum, over exactly the lists that contain
  it, of \<open>1 / (60 + rank)\<close> with the 1-based rank of the item in that list.  An item
  that occurs in no list has no entry, so a list without the item adds nothing.
\<close>

theorem rrf_fused_score:
  assumes "\<forall>lst \<in> set ranked_lists. distinct lst"
  shows "\<exists>fused. reciprocal_rank_fusion ranked_lists 60 = Inr fused \<and>
           (\<forall>key. fused key =
              (if key \<in> \<Union>(set ` set ranked_lists)
               then Some (rrf_score_spec ranked_lists key) else None))"
proof -
  have "reciprocal_rank_fusion ranked_lists 60 =
          Inr (\<lambda>key. if key \<in> \<Union>(set ` set ranked_lists)
                then Some (fused_get Map.empty key + (\<Sum>lst \<leftarrow> ranked_lists. contrib 60 1 lst key))
                else Map.empty key)"
    unfolding reciprocal_rank_fusion_def by (rule rrf_outer_result) simp
  then show ?thesis
    using contrib_sum_spec [OF assms] by (simp add: fused_get_def)
qed

theorem rrf_fused_score_witness:
  "\<exists>fused. reciprocal_rank_fusion [[7, 3, 9], [3, 5]] 60 = Inr fused \<and>
     fused 3 = Some (1 / 62 + 1 / 61) \<and> fused 7 = Some (1 / 61) \<and>
     fused 5 = Some (1 / 62) \<and> fused 4 = None"
proof -
  have d: "\<forall>lst \<in> set [[7, 3, 9], [3, 5 :: int]]. distinct lst" by simp
  from rrf_fused_score [OF d] obtain fused where
    r: "reciprocal_rank_fusion [[7, 3, 9], [3, 5]] 60 = Inr fused" and
    f: "\<And>key. fused key =
          (if key \<in> \<Union>(set ` set [[7, 3, 9], [3, 5 :: int]])
           then Some (rrf_score_spec [[7, 3, 9], [3, 5]] key) else None)"
    by blast
  have "fused 3 = Some (1 / 62 + 1 / 61)" "fused 7 = Some (1 / 61)"
       "fused 5 = Some (1 / 62)" "fused 4 = None"
    by (simp_all add: f rrf_score_spec_def)
  with r show ?thesis by blast
qed

text \<open>
  C5.  \<open>compute_confidence\<close> is the threshold rule of the specification: \<open>strong\<close> when
  the top score is at least 0.035 and the top-10 overlap at least 1, else \<open>medium\<close>
  when the top score is at least 0.02, else \<open>weak\<close>; and with the overlap fixed, a lower
  top score never gives a higher level.
\<close>

theorem compute_confidence_rule:
  "(35 / 1000 \<le> s \<and> 1 \<le> n \<longrightarrow> compute_confidence s n = ''strong'') \<and>
   (\<not> (35 / 1000 \<le> s \<and> 1 \<le> n) \<and> 2 / 100 \<le> s \<longrightarrow> compute_confidence s n = ''medium'') \<and>
   (\<not> (35 / 1000 \<le> s \<and> 1 \<le> n) \<and> \<not> 2 / 100 \<le> s \<longrightarrow> compute_confidence s n = ''weak'') \<and>
   (s' \<le> s \<longrightarrow> conf_rank (compute_confidence s' n) \<le> conf_rank (compute_confidence s n))"
  by (auto simp: compute_confidence_def conf_rank_def)

theorem compute_confidence_rule_witness:
  "compute_confidence (4 / 100) 1 = ''strong'' \<and>
   compute_confidence (4 / 100) 0 = ''medium'' \<and>
   compute_confidence (1 / 100) 3 = ''weak'' \<and>
   conf_rank (compute_confidence (3 / 100) 1) \<le> conf_rank (compute_confidence (4 / 100) 1)"
proof -
  have a: "compute_confidence (4 / 100) 1 = ''strong''"
    using compute_confidence_rule [of "4 / 100" 1 "4 / 100"] by simp
  have b: "compute_confidence (4 / 100) 0 = ''medium''"
    using compute_confidence_rule [of "4 / 100" 0 "4 / 100"] by simp
  have c: "compute_confidence (1 / 100) 3 = ''weak''"
    using compute_confidence_rule [of "1 / 100" 3 "1 / 100"] by simp
  have d: "conf_rank (compute_confidence (3 / 100) 1) \<le> conf_rank (compute_confidence (4 / 100) 1)"
    using compute_confidence_rule [of "4 / 100" 1 "3 / 100"] by auto
  from a b c d show ?thesis by blast
qed


section \<open>Properties of the chunk-level lexical search\<close>

lemma set_ranked_all: "set (ranked_all scores) = {0..<length scores}"
  by (simp add: ranked_all_def)

text \<open>
  C10.  When the index loads, has one score per metadata entry, and no in-scope chunk
  has a positive score, then for \<open>k \<ge> 1\<close> the search returns the first \<open>k\<close> in-scope
  chunks of the score ranking anyway, each with a score that is not positive; the hit
  list is non-empty as soon as one chunk is in scope.
\<close>

theorem bm25_zero_score_fallback:
  assumes idx: "loaded = Inr index"
    and len: "length (idx_get_scores index (tokenize query)) = length (idx_meta index)"
    and k: "1 \<le> k"
    and nonpos: "\<forall>i < length (idx_meta index).
            allowed scope (map upper (case mp_ids of None \<Rightarrow> [] | Some ms \<Rightarrow> ms)) min_eq
              (idx_meta index ! i) \<longrightarrow>
            idx_get_scores index (tokenize query) ! i \<le> 0"
  shows "\<exists>hits. bm25_chunks_search_filtered loaded query k scope mp_ids min_eq = Inr hits \<and>
           hits = map (\<lambda>i. bm25_hit (idx_get_scores index (tokenize query) ! i) (idx_meta index ! i))
                    (take (nat k)
                       (filter (\<lambda>i. allowed scope
                                  (map upper (case mp_ids of None \<Rightarrow> [] | Some ms \<Rightarrow> ms)) min_eq
                                  (idx_meta index ! i))
                          (ranked_all (idx_get_scores index (tokenize query))))) \<and>
           (\<forall>h \<in> set hits. bh_score h \<le> 0) \<and>
           ((\<exists>m \<in> set (idx_meta index).
                allowed scope (map upper (case mp_ids of None \<Rightarrow> [] | Some ms \<Rightarrow> ms)) min_eq m)
              \<longrightarrow> hits \<noteq> [])"
proof -
  define scores where "scores = idx_get_scores index (tokenize query)"
  define meta where "meta = idx_meta index"
  define ok where
    "ok = (\<lambda>i. allowed scope (map upper (case mp_ids of None \<Rightarrow> [] | Some ms \<Rightarrow> ms)) min_eq
                 (meta ! i))"
  define hits where
    "hits = map (\<lambda>i. bm25_hit (scores ! i) (meta ! i)) (take (nat k) (filter ok (ranked_all scores)))"
  have len': "length scores = length meta" using len by (simp add: scores_def meta_def)
  have nonpos': "\<And>i. i < length meta \<Longrightarrow> ok i \<Longrightarrow> scores ! i \<le> 0"
    using nonpos by (simp add: scores_def meta_def ok_def)
  have none_pos: "filter (\<lambda>i. ok i \<and> 0 < scores ! i) (ranked_all scores) = []"
  proof -
    have "\<And>i. i \<in> set (ranked_all scores) \<Longrightarrow> \<not> (ok i \<and> 0 < scores ! i)"
      using nonpos' len' by (fastforce simp: set_ranked_all)
    then show ?thesis by (simp add: filter_empty_conv)
  qed
  have take_k: "py_take k xs = take (nat k) xs" for xs :: "nat list"
    using k by (simp add: py_take_def)
  have "bm25_chunks_search_filtered loaded query k scope mp_ids min_eq =
          (let ranked = py_take k (filter (\<lambda>i. ok i \<and> 0 < scores ! i) (ranked_all scores));
               ranked' = (if ranked = [] then py_take k (filter ok (ranked_all scores)) else ranked)
           in Inr (map (\<lambda>i. bm25_hit (scores ! i) (meta ! i)) ranked'))"
    unfolding bm25_chunks_search_filtered_def idx scores_def meta_def ok_def
    using len by (simp add: Let_def)
  also have "\<dots> = Inr hits"
    unfolding none_pos by (simp add: take_k hits_def)
  finally have res: "bm25_chunks_search_filtered loaded query k scope mp_ids min_eq = Inr hits" .
  have scores_le: "\<forall>h \<in> set hits. bh_score h \<le> 0"
  proof
    fix h assume "h \<in> set hits"
    then obtain i where i: "i \<in> set (take (nat k) (filter ok (ranked_all scores)))"
      and h: "h = bm25_hit (scores ! i) (meta ! i)"
      by (auto simp: hits_def)
    from i have "i \<in> set (filter ok (ranked_all scores))" by (rule in_set_takeD)
    then have "ok i" "i < length meta" using len' by (simp_all add: set_ranked_all)
    then have "scores ! i \<le> 0" using nonpos' by blast
    then show "bh_score h \<le> 0" by (simp add: h bm25_hit_def)
  qed
  have nonempty: "hits \<noteq> []"
    if ex: "\<exists>m \<in> set meta. allowed scope (map upper (case mp_ids of None \<Rightarrow> [] | Some ms \<Rightarrow> ms)) min_eq m"
  proof -
    from ex obtain i where "i < length meta" "ok i"
      by (auto simp: in_set_conv_nth ok_def)
    then have "i \<in> set (ranked_all scores) \<and> ok i"
      using len' by (simp add: set_ranked_all)
    then have "filter ok (ranked_all scores) \<noteq> []"
      by (auto simp: filter_empty_conv)
    moreover have "0 < nat k" using k by simp
    ultimately have "take (nat k) (filter ok (ranked_all scores)) \<noteq> []"
      by (cases "filter ok (ranked_all scores)") (auto simp: take_Cons')
    then show ?thesis by (simp add: hits_def)
  qed
  show ?thesis
    using res scores_le nonempty
    unfolding hits_def scores_def meta_def ok_def by blast
qed

theorem bm25_zero_score_fallback_witness:
  "\<exists>hits. bm25_chunks_search_filtered (Inr demo_index) ''zebra'' 2 ''standspec'' None None = Inr hits \<and>
     map bh_chunk_id hits = [11, 13] \<and> map bh_score hits = [0, - (1 / 2)] \<and> hits \<noteq> []"
proof -
  have len: "length (idx_get_scores demo_index (tokenize ''zebra'')) = length (idx_meta demo_index)"
    by (simp add: demo_index_def)
  have nonpos: "\<forall>i < length (idx_meta demo_index).
      allowed ''standspec'' (map upper (case None of None \<Rightarrow> [] | Some ms \<Rightarrow> ms)) None
        (idx_meta demo_index ! i) \<longrightarrow>
      idx_get_scores demo_index (tokenize ''zebra'') ! i \<le> 0"
    by (simp add: demo_index_def less_Suc_eq nth_Cons')
  have ra: "ranked_all [0, 0, - (1 / 2) :: real] = [0, 1, 2]"
    by (simp add: ranked_all_def upt_rec [of 0] upt_rec [of 1] upt_rec [of 2])
  have ok: "allowed ''standspec'' [] None (demo_meta c ''standspec'' t)"
           "\<not> allowed ''standspec'' [] None (demo_meta c ''mp'' t)" for c t
    by (simp_all add: allowed_def demo_meta_def lower_def lower_char_def
          upper_chars_def lower_chars_def)
  from bm25_zero_score_fallback [OF refl len _ nonpos, of 2]
  obtain hits where
    r: "bm25_chunks_search_filtered (Inr demo_index) ''zebra'' 2 ''standspec'' None None = Inr hits"
    and h: "hits = map (\<lambda>i. bm25_hit (idx_get_scores demo_index (tokenize ''zebra'') ! i)
                         (idx_meta demo_index ! i))
                 (take (nat 2)
                    (filter (\<lambda>i. allowed ''standspec''
                               (map upper (case None of None \<Rightarrow> [] | Some ms \<Rightarrow> ms)) None
                               (idx_meta demo_index ! i))
                       (ranked_all (idx_get_scores demo_index (tokenize ''zebra'')))))"
    by auto
  have sc: "idx_get_scores demo_index (tokenize ''zebra'') = [0, 0, - (1 / 2)]"
    by (simp add: demo_index_def)
  have "hits = [bm25_hit 0 (demo_meta 11 ''standspec'' ''asphalt''),
                bm25_hit (- (1 / 2)) (demo_meta 13 ''standspec'' ''conduit'')]"
    unfolding h sc ra by (simp add: demo_index_def ok)
  then have "map bh_chunk_id hits = [11, 13]" "map bh_score hits = [0, - (1 / 2)]" "hits \<noteq> []"
    by (simp_all add: bm25_hit_def demo_meta_def)
  with r show ?thesis by simp
qed

section \<open>Properties of the segmenter\<close>

lemma strip_all_space:
  assumes "\<forall>c \<in> set s. is_space c"
  shows "strip s = []"
proof -
  have d: "dropWhile is_space s = []"
    using assms by (induction s) auto
  show ?thesis unfolding strip_def rstrip_def d by simp
qed

lemma join_empty_lines: "\<forall>x \<in> set xs. x = [] \<Longrightarrow> set (join [newline] xs) \<subseteq> {newline}"
  by (induction "[newline]" xs rule: join.induct) auto

lemma is_space_newline: "is_space newline"
  by (simp add: is_space_def space_chars_def newline_def)

lemma flush_texts:
  "\<forall>c \<in> set (ck_chunks st). c_text c \<noteq> [] \<Longrightarrow> \<forall>c \<in> set (ck_chunks (flush st)). c_text c \<noteq> []"
  by (auto simp: flush_def Let_def split: option.splits)

lemma add_segment_texts:
  "\<forall>c \<in> set (ck_chunks st). c_text c \<noteq> [] \<Longrightarrow>
   \<forall>c \<in> set (ck_chunks (add_segment page_no st seg)). c_text c \<noteq> []"
  using flush_texts [of st] by (simp add: add_segment_def Let_def)

lemma add_segments_texts:
  "\<forall>c \<in> set (ck_chunks st). c_text c \<noteq> [] \<Longrightarrow>
   \<forall>c \<in> set (ck_chunks (foldl (add_segment page_no) st segs)). c_text c \<noteq> []"
proof (induction segs arbitrary: st)
  case Nil
  then show ?case by simp
next
  case (Cons seg segs)
  show ?case
    using Cons.IH [OF add_segment_texts [OF Cons.prems, of page_no seg]] by simp
qed

lemma add_pages_texts:
  "\<forall>c \<in> set (ck_chunks st). c_text c \<noteq> [] \<Longrightarrow>
   \<forall>c \<in> set (ck_chunks (foldl add_page st pages)). c_text c \<noteq> []"
proof (induction pages arbitrary: st)
  case Nil
  then show ?case by simp
next
  case (Cons page pages)
  have "\<forall>c \<in> set (ck_chunks (add_page st page)). c_text c \<noteq> []"
    unfolding add_page_def by (rule add_segments_texts [OF Cons.prems])
  then show ?case by (simp add: Cons.IH)
qed

lemma chunk_texts_nonempty: "\<forall>c \<in> set (chunk_document_pages pages). c_text c \<noteq> []"
proof -
  have "\<forall>c \<in> set (ck_chunks chunker_init). c_text c \<noteq> []"
    by (simp add: chunker_init_def)
  then have "\<forall>c \<in> set (ck_chunks (foldl add_page chunker_init pages)). c_text c \<noteq> []"
    by (rule add_pages_texts)
  then show ?thesis
    unfolding chunk_document_pages_def by (rule flush_texts)
qed

text \<open>A run of empty pages leaves no finished chunk, no section, and only empty texts in the buffer.\<close>

lemma add_empty_page:
  assumes "ck_chunks st = []" "ck_section st = None" "\<forall>x \<in> set (ck_buf st). x = []"
  shows "ck_chunks (add_page st (page_no, [])) = [] \<and>
         ck_section (add_page st (page_no, [])) = None \<and>
         (\<forall>x \<in> set (ck_buf (add_page st (page_no, []))). x = [])"
  using assms by (simp add: add_page_def split_page_into_segments_def add_segment_def Let_def)

lemma add_empty_pages:
  assumes "ck_chunks st = []" "ck_section st = None" "\<forall>x \<in> set (ck_buf st). x = []"
    and "\<forall>p \<in> set pages. snd p = []"
  shows "ck_chunks (foldl add_page st pages) = [] \<and>
         (\<forall>x \<in> set (ck_buf (foldl add_page st pages)). x = [])"
  using assms
proof (induction pages arbitrary: st)
  case Nil
  then show ?case by simp
next
  case (Cons page pages)
  obtain page_no where page: "page = (page_no, [])"
    using Cons.prems(4) by (cases page) simp
  from add_empty_page [OF Cons.prems(1-3), of page_no]
  have "ck_chunks (add_page st page) = []" "ck_section (add_page st page) = None"
       "\<forall>x \<in> set (ck_buf (add_page st page)). x = []"
    by (simp_all add: page)
  moreover have "\<forall>p \<in> set pages. snd p = []" using Cons.prems(4) by simp
  ultimately show ?case using Cons.IH [of "add_page st page"] by simp
qed

lemma flush_empty_buffer:
  assumes "ck_chunks st = []" "\<forall>x \<in> set (ck_buf st). x = []"
  shows "ck_chunks (flush st) = []"
proof -
  have "\<forall>c \<in> set (join [newline] (ck_buf st)). is_space c"
    using join_empty_lines [OF assms(2)] is_space_newline by auto
  then have "strip (join [newline] (ck_buf st)) = []" by (rule strip_all_space)
  then show ?thesis using assms(1)
    by (simp add: flush_def Let_def split: option.splits)
qed

text \<open>
  What an empty page does to the running state of \<open>chunk_document_pages\<close>: it is handled as
  one segment without a section.  It appends an empty text to the buffer of the open chunk
  and moves the end page of the open chunk to its page number; when no chunk is open, it
  opens one at its page number, without section and heading.
\<close>

lemma add_page_empty:
  "add_page st (page_no, []) =
     (if ck_start st = None
      then st\<lparr>ck_start := Some page_no, ck_section := None, ck_heading := None,
              ck_end := Some page_no, ck_buf := ck_buf st @ [[]]\<rparr>
      else st\<lparr>ck_end := Some page_no, ck_buf := ck_buf st @ [[]]\<rparr>)"
  by (simp add: add_page_def split_page_into_segments_def add_segment_def Let_def)

text \<open>
  C9, as the code has it.  An empty page text gives one segment with no section and the
  empty text.  Segmentation is total, and \<open>flush\<close> keeps a chunk only when its text is not
  empty: no chunk of \<open>chunk_document_pages\<close> has an empty text, and a document whose pages
  are all empty gives no chunk at all.  Within a document an empty page is not left out of
  the running state: it appends an empty text to the buffer of the open chunk and moves
  the end page of the open chunk to its page number (it opens a chunk at its page number
  when none is open).  So an empty page between a page \<open>abc\<close> and a page \<open>def\<close> leaves an
  empty line in their one chunk, whose pages run from the first to the last of the three.
\<close>

theorem segmenter_empty_page:
  "split_page_into_segments [] = [\<lparr>s_section_id = None, s_heading = None, s_text = []\<rparr>] \<and>
   (\<forall>c \<in> set (chunk_document_pages pages). c_text c \<noteq> []) \<and>
   ((\<forall>p \<in> set pages. snd p = []) \<longrightarrow> chunk_document_pages pages = []) \<and>
   add_page st (page_no, []) =
     (if ck_start st = None
      then st\<lparr>ck_start := Some page_no, ck_section := None, ck_heading := None,
              ck_end := Some page_no, ck_buf := ck_buf st @ [[]]\<rparr>
      else st\<lparr>ck_end := Some page_no, ck_buf := ck_buf st @ [[]]\<rparr>) \<and>
   chunk_document_pages [(1, ''abc''), (2, []), (3, ''def'')] =
     [\<lparr>c_section_id = None, c_heading = None, c_page_start = 1, c_page_end = 3,
       c_text = ''abc'' @ [newline, newline] @ ''def''\<rparr>]"
proof -
  have none: "chunk_document_pages pages = []" if "\<forall>p \<in> set pages. snd p = []"
  proof -
    from add_empty_pages [OF _ _ _ that, of chunker_init]
    have "ck_chunks (foldl add_page chunker_init pages) = []"
         "\<forall>x \<in> set (ck_buf (foldl add_page chunker_init pages)). x = []"
      by (simp_all add: chunker_init_def)
    then show ?thesis
      unfolding chunk_document_pages_def by (rule flush_empty_buffer)
  qed
  have seg: "split_page_into_segments [] =
               [\<lparr>s_section_id = None, s_heading = None, s_text = []\<rparr>]"
    by (simp add: split_page_into_segments_def)
  have between: "chunk_document_pages [(1, ''abc''), (2, []), (3, ''def'')] =
     [\<lparr>c_section_id = None, c_heading = None, c_page_start = 1, c_page_end = 3,
       c_text = ''abc'' @ [newline, newline] @ ''def''\<rparr>]"
    by code_simp
  show ?thesis
  proof (intro conjI impI)
    show "split_page_into_segments [] =
            [\<lparr>s_section_id = None, s_heading = None, s_text = []\<rparr>]"
      by (rule seg)
    show "\<forall>c \<in> set (chunk_document_pages pages). c_text c \<noteq> []"
      by (rule chunk_texts_nonempty)
    show "chunk_document_pages pages = []" if "\<forall>p \<in> set pages. snd p = []"
      using that by (rule none)
    show "add_page st (page_no, []) =
     (if ck_start st = None
      then st\<lparr>ck_start := Some page_no, ck_section := None, ck_heading := None,
              ck_end := Some page_no, ck_buf := ck_buf st @ [[]]\<rparr>
      else st\<lparr>ck_end := Some page_no, ck_buf := ck_buf st @ [[]]\<rparr>)"
      by (rule add_page_empty)
    show "chunk_document_pages [(1, ''abc''), (2, []), (3, ''def'')] =
     [\<lparr>c_section_id = None, c_heading = None, c_page_start = 1, c_page_end = 3,
       c_text = ''abc'' @ [newline, newline] @ ''def''\<rparr>]"
      by (rule between)
  qed
qed

text \<open>
  Two empty pages give no chunk.  An empty first page opens the chunk of the second page,
  whose page range is then 1 to 2.  An empty page between two pages of text leaves an
  empty line in their chunk, whose page range is 1 to 3.
\<close>

theorem segmenter_empty_page_witness:
  "chunk_document_pages [(1, []), (2, [])] = [] \<and>
   chunk_document_pages [(1, []), (2, ''abc'')] =
     [\<lparr>c_section_id = None, c_heading = None, c_page_start = 1, c_page_end = 2,
       c_text = ''abc''\<rparr>] \<and>
   chunk_document_pages [(1, ''abc''), (2, []), (3, ''def'')] =
     [\<lparr>c_section_id = None, c_heading = None, c_page_start = 1, c_page_end = 3,
       c_text = ''abc'' @ [newline, newline] @ ''def''\<rparr>] \<and>
   add_page chunker_init (5, []) =
     \<lparr>ck_chunks = [], ck_section = None, ck_heading = None, ck_start = Some 5,
      ck_end = Some 5, ck_buf = [[]]\<rparr>"
proof -
  have "chunk_document_pages [(1, []), (2, [])] = []"
    using segmenter_empty_page [of "[(1, []), (2, [])]"] by simp
  moreover have "chunk_document_pages [(1, []), (2, ''abc'')] =
     [\<lparr>c_section_id = None, c_heading = None, c_page_start = 1, c_page_end = 2,
       c_text = ''abc''\<rparr>]"
    by code_simp
  moreover have "chunk_document_pages [(1, ''abc''), (2, []), (3, ''def'')] =
     [\<lparr>c_section_id = None, c_heading = None, c_page_start = 1, c_page_end = 3,
       c_text = ''abc'' @ [newline, newline] @ ''def''\<rparr>]"
    using segmenter_empty_page [of "[]" chunker_init 5] by simp
  moreover have "add_page chunker_init (5, []) =
     \<lparr>ck_chunks = [], ck_section = None, ck_heading = None, ck_start = Some 5,
      ck_end = Some 5, ck_buf = [[]]\<rparr>"
    using segmenter_empty_page [of "[]" chunker_init 5] by (simp add: chunker_init_def)
  ultimately show ?thesis by simp
qed

theorem empty_page_chunk_counterexample:
  "chunk_document_pages [(1, [])] = []"
  by code_simp

section \<open>Properties of the rebuild\<close>

lemma foldl_invariant:
  assumes "\<And>s x. x \<in> set xs \<Longrightarrow> I s \<Longrightarrow> I (f s x)" and "I s"
  shows "I (foldl f s xs)"
  using assms by (induction xs arbitrary: s) auto

subsection \<open>Page order of the chunks\<close>

lemma chunker_ok_mono: "chunker_ok lo st \<Longrightarrow> lo \<le> p \<Longrightarrow> chunker_ok p st"
  by (fastforce simp: chunker_ok_def)

lemma flush_ok: "chunker_ok lo st \<Longrightarrow> chunker_ok lo (flush st)"
  by (auto simp: chunker_ok_def flush_def Let_def split: option.splits)

lemma add_segment_ok:
  assumes "chunker_ok p st"
  shows "chunker_ok p (add_segment p st seg)"
proof -
  have f: "chunker_ok p (flush st)" using assms by (rule flush_ok)
  show ?thesis
    using assms f by (auto simp: add_segment_def Let_def chunker_ok_def)
qed

lemma add_page_ok:
  assumes "chunker_ok lo st" "lo \<le> fst page"
  shows "chunker_ok (fst page) (add_page st page)"
proof -
  have "chunker_ok (fst page) st" using assms by (rule chunker_ok_mono)
  then show ?thesis
    unfolding add_page_def
    by (rule foldl_invariant [where I = "chunker_ok (fst page)", rotated]) (rule add_segment_ok)
qed

lemma add_pages_ok:
  "sorted (map fst pages) \<Longrightarrow> \<forall>p \<in> set pages. lo \<le> fst p \<Longrightarrow> chunker_ok lo st \<Longrightarrow>
   \<exists>hi. chunker_ok hi (foldl add_page st pages)"
proof (induction pages arbitrary: lo st)
  case Nil
  then show ?case by auto
next
  case (Cons page pages)
  have 1: "chunker_ok (fst page) (add_page st page)"
    using Cons.prems by (intro add_page_ok) auto
  have 2: "sorted (map fst pages)" "\<forall>p \<in> set pages. fst page \<le> fst p"
    using Cons.prems(1) by auto
  from Cons.IH [OF 2 1] show ?case by simp
qed

lemma chunk_pages_ordered:
  assumes "sorted (map fst pages)"
  shows "\<forall>c \<in> set (chunk_document_pages pages). c_page_start c \<le> c_page_end c"
proof (cases pages)
  case Nil
  then show ?thesis
    by (simp add: chunk_document_pages_def chunker_init_def flush_def)
next
  case (Cons page rest)
  have "chunker_ok (fst page) chunker_init"
    by (simp add: chunker_ok_def chunker_init_def)
  moreover have "\<forall>p \<in> set pages. fst page \<le> fst p"
    using assms Cons by auto
  ultimately obtain hi where "chunker_ok hi (foldl add_page chunker_init pages)"
    using add_pages_ok [OF assms] by blast
  then have "chunker_ok hi (flush (foldl add_page chunker_init pages))"
    by (rule flush_ok)
  then show ?thesis
    by (simp add: chunk_document_pages_def chunker_ok_def)
qed

lemma document_pages_sorted: "sorted (map fst (document_pages db doc_id))"
  by (simp add: document_pages_def comp_def)

subsection \<open>The rows that a rebuild inserts\<close>

lemma content_chunk_row_ok:
  "c_page_start ch \<le> c_page_end ch \<Longrightarrow> chunk_row_ok (content_chunk_row doc_id idx ch cid)"
  by (simp add: chunk_row_ok_def content_chunk_row_def classify_chunk_def Let_def)

lemma table_row_chunk_ok:
  "chunk_row_ok (table_row_chunk doc_id idx sid heading page_no text uid r_idx label cid)"
  by (simp add: chunk_row_ok_def table_row_chunk_def)

lemma insert_chunk_inv:
  "rebuild_inv h docs pages db \<Longrightarrow> (\<And>cid. chunk_row_ok (mk cid)) \<Longrightarrow>
   rebuild_inv h docs pages (insert_chunk mk db)"
  by (simp add: rebuild_inv_def insert_chunk_def)

lemma insert_table_row_inv:
  "rebuild_inv h docs pages db \<Longrightarrow> rebuild_inv h docs pages (insert_table_row r db)"
  by (simp add: rebuild_inv_def insert_table_row_def)

lemma insert_or_replace_table_inv:
  "rebuild_inv h docs pages db \<Longrightarrow> table_uid_ok h t \<Longrightarrow>
   rebuild_inv h docs pages (insert_or_replace_table t db)"
  by (simp add: rebuild_inv_def insert_or_replace_table_def)

lemma update_chunk_table_inv:
  "rebuild_inv h docs pages db \<Longrightarrow> rebuild_inv h docs pages (update_chunk_table cid uid label db)"
  by (auto simp: rebuild_inv_def update_chunk_table_def chunk_row_ok_def)

lemma link_row_inv:
  "rebuild_inv h docs pages db \<Longrightarrow> rebuild_inv h docs pages (link_row doc_id db r)"
  by (auto simp: link_row_def update_chunk_table_inv split: option.splits)

lemma link_table_uids_inv:
  "rebuild_inv h docs pages db \<Longrightarrow>
   rebuild_inv h docs pages (link_table_uids_for_document doc_id db)"
  unfolding link_table_uids_for_document_def
  by (rule foldl_invariant) (simp_all add: link_row_inv)

lemma insert_content_chunk_inv:
  "rebuild_inv h docs pages (fst s) \<Longrightarrow> c_page_start ch \<le> c_page_end ch \<Longrightarrow>
   rebuild_inv h docs pages (fst (insert_content_chunk doc_id s ch))"
  by (simp add: insert_content_chunk_def insert_chunk_inv content_chunk_row_ok)

lemma insert_table_line_inv:
  "rebuild_inv h docs pages (fst s) \<Longrightarrow>
   rebuild_inv h docs pages (fst (insert_table_line doc_id sid heading page_no uid label s il))"
  by (simp add: insert_table_line_def Let_def insert_chunk_inv insert_table_row_inv
        table_row_chunk_ok)

lemma insert_table_block_inv:
  assumes "rebuild_inv h docs pages (fst s)"
  shows "rebuild_inv h docs pages (fst (insert_table_block h d sid heading page_no s tb))"
proof -
  define t_idx where "t_idx = fst tb"
  define uid where
    "uid = stable_table_uid h (d_id d) (d_filename d) page_no t_idx (blk_lines (snd tb))"
  define label where "label = ''Table (p. '' @ str_int page_no @ '') #'' @ str_int t_idx"
  define t where
    "t = \<lparr>tb_table_uid = uid, tb_document_id = d_id d, tb_filename = d_filename d,
          tb_display_name = d_display_name d, tb_doc_type = d_doc_type d,
          tb_mp_id = d_mp_id d, tb_section_id = sid, tb_page_number = page_no,
          tb_table_index_on_page = t_idx, tb_table_label = label, tb_title = None\<rparr>"
  have "table_uid_ok h t"
    unfolding table_uid_ok_def t_def uid_def by auto
  then have start: "rebuild_inv h docs pages (insert_or_replace_table t (fst s))"
    using assms by (intro insert_or_replace_table_inv)
  have "rebuild_inv h docs pages
     (fst (foldl (insert_table_line (d_id d) sid heading page_no uid label)
            (insert_or_replace_table t (fst s), snd s)
            (zip (map int [0..<length (blk_lines (snd tb))]) (blk_lines (snd tb)))))"
    by (rule foldl_invariant [where I = "\<lambda>s. rebuild_inv h docs pages (fst s)"])
       (simp_all add: insert_table_line_inv start)
  then show ?thesis
    by (simp add: insert_table_block_def Let_def t_def uid_def label_def t_idx_def)
qed

lemma insert_page_tables_inv:
  assumes "rebuild_inv h docs pages (fst s)"
  shows "rebuild_inv h docs pages (fst (insert_page_tables h d ctx s page))"
proof (cases "extract_table_blocks (snd page) = []")
  case True
  then show ?thesis using assms by (simp add: insert_page_tables_def)
next
  case False
  obtain sid heading where c: "(case ctx (fst page) of None \<Rightarrow> (None, None) | Some c \<Rightarrow> c) = (sid, heading)"
    by (cases "case ctx (fst page) of None \<Rightarrow> (None, None) | Some c \<Rightarrow> c") auto
  have "rebuild_inv h docs pages
     (fst (foldl (insert_table_block h d sid heading (fst page)) s
            (zip (map int [1..<Suc (length (extract_table_blocks (snd page)))])
               (extract_table_blocks (snd page)))))"
    by (rule foldl_invariant [where I = "\<lambda>s. rebuild_inv h docs pages (fst s)"])
       (simp_all add: insert_table_block_inv assms)
  then show ?thesis using False
    by (simp add: insert_page_tables_def Let_def c)
qed

lemma rebuild_document_inv:
  assumes "rebuild_inv h docs pages db"
  shows "rebuild_inv h docs pages (rebuild_document h db d)"
proof -
  define pgs where "pgs = document_pages db (d_id d)"
  define ctx where
    "ctx = section_context (sort_key (\<lambda>c. (c_page_start c, c_page_end c)) (chunk_document_pages pgs))
             (None, None) Map.empty (map fst pgs)"
  have ordered: "\<forall>c \<in> set (chunk_document_pages pgs). c_page_start c \<le> c_page_end c"
    unfolding pgs_def by (rule chunk_pages_ordered [OF document_pages_sorted])
  have 0: "rebuild_inv h docs pages (fst (db, 0 :: int))"
    using assms by simp
  have 1: "rebuild_inv h docs pages
             (fst (foldl (insert_content_chunk (d_id d)) (db, 0) (chunk_document_pages pgs)))"
  proof (rule foldl_invariant [where I = "\<lambda>s. rebuild_inv h docs pages (fst s)"])
    fix s :: "store \<times> int" and x
    assume "x \<in> set (chunk_document_pages pgs)" "rebuild_inv h docs pages (fst s)"
    then show "rebuild_inv h docs pages (fst (insert_content_chunk (d_id d) s x))"
      using ordered by (intro insert_content_chunk_inv) auto
  qed (rule 0)
  have 2: "rebuild_inv h docs pages
             (fst (foldl (insert_page_tables h d ctx)
                    (foldl (insert_content_chunk (d_id d)) (db, 0) (chunk_document_pages pgs))
                    pgs))"
  proof (rule foldl_invariant [where I = "\<lambda>s. rebuild_inv h docs pages (fst s)"])
    fix s :: "store \<times> int" and x
    assume "rebuild_inv h docs pages (fst s)"
    then show "rebuild_inv h docs pages (fst (insert_page_tables h d ctx s x))"
      by (rule insert_page_tables_inv)
  qed (rule 1)
  show ?thesis
    using link_table_uids_inv [OF 2, of "d_id d"]
    by (simp add: rebuild_document_def Let_def pgs_def ctx_def)
qed

lemma rebuild_chunks_inv:
  "rebuild_inv h (st_documents db) (st_pages db) (rebuild_chunks h db)"
  unfolding rebuild_chunks_def
proof (rule foldl_invariant)
  fix s x
  assume "rebuild_inv h (st_documents db) (st_pages db) s"
  then show "rebuild_inv h (st_documents db) (st_pages db) (rebuild_document h s x)"
    by (rule rebuild_document_inv)
next
  show "rebuild_inv h (st_documents db) (st_pages db)
          (db\<lparr>st_table_rows := [], st_tables := [], st_chunks := []\<rparr>)"
    by (simp add: rebuild_inv_def)
qed

lemma rebuild_chunks_cong:
  assumes "st_documents db = st_documents db'" "st_pages db = st_pages db'"
  shows "rebuild_chunks h db = rebuild_chunks h db'"
proof -
  have eq: "db\<lparr>st_table_rows := [], st_tables := [], st_chunks := []\<rparr> =
        db'\<lparr>st_table_rows := [], st_tables := [], st_chunks := []\<rparr>"
    using assms by (intro store.equality) simp_all
  show ?thesis by (simp only: rebuild_chunks_def assms eq)
qed

text \<open>
  C7.  After a rebuild every stored chunk, whether a content chunk of the segmenter or a
  table-row chunk, has \<open>page_start \<le> page_end\<close>, and its \<open>table_row_index\<close> is set exactly
  when its kind is \<open>table_row\<close>.
\<close>

theorem rebuild_chunk_invariant:
  "\<forall>c \<in> set (st_chunks (rebuild_chunks sha1_hex db)).
     ch_page_start c \<le> ch_page_end c \<and>
     ((ch_table_row_index c \<noteq> None) = (ch_chunk_kind c = Some ''table_row''))"
  using rebuild_chunks_inv [of sha1_hex db] by (simp add: rebuild_inv_def chunk_row_ok_def)

text \<open>
  C8.  The table uid depends on the table's lines only through their first 25; a rebuild
  gives every table the stable uid of its own document id, filename, page and in-page
  index; the tables of a rebuild depend only on the documents and pages of the store; and
  rebuilding again leaves them as they are.
\<close>

theorem table_uid_stable:
  "(take 25 lines = take 25 lines' \<longrightarrow>
      stable_table_uid sha1_hex document_id filename page_number idx lines =
      stable_table_uid sha1_hex document_id filename page_number idx lines') \<and>
   (\<forall>t \<in> set (st_tables (rebuild_chunks sha1_hex db)).
      \<exists>ls. tb_table_uid t =
        stable_table_uid sha1_hex (tb_document_id t) (tb_filename t) (tb_page_number t)
          (tb_table_index_on_page t) ls) \<and>
   (st_documents db = st_documents db' \<and> st_pages db = st_pages db' \<longrightarrow>
      st_tables (rebuild_chunks sha1_hex db) = st_tables (rebuild_chunks sha1_hex db')) \<and>
   st_tables (rebuild_chunks sha1_hex (rebuild_chunks sha1_hex db)) =
     st_tables (rebuild_chunks sha1_hex db)"
proof -
  have inv: "rebuild_inv sha1_hex (st_documents db) (st_pages db) (rebuild_chunks sha1_hex db)"
    by (rule rebuild_chunks_inv)
  have same: "rebuild_chunks sha1_hex (rebuild_chunks sha1_hex db) = rebuild_chunks sha1_hex db"
    using inv by (intro rebuild_chunks_cong) (simp_all add: rebuild_inv_def)
  show ?thesis
    using inv same rebuild_chunks_cong [of db db' sha1_hex]
    by (auto simp: rebuild_inv_def table_uid_ok_def stable_table_uid_def)
qed

lemma demo_rebuild_eval:
  "map (\<lambda>c. (ch_page_start c, ch_page_end c, ch_chunk_kind c, ch_table_row_index c))
     (st_chunks (rebuild_chunks demo_digest demo_store)) =
     [(2, 2, Some ''content'', None), (2, 2, Some ''content'', None),
      (2, 2, Some ''table_row'', Some 0), (2, 2, Some ''table_row'', Some 1),
      (2, 2, Some ''table_row'', Some 2), (2, 2, Some ''table_row'', Some 4),
      (2, 2, Some ''table_row'', Some 5)] \<and>
   map tb_table_uid (st_tables (rebuild_chunks demo_digest demo_store)) =
     [stable_table_uid demo_digest 7 ''s.pdf'' 2 1
        [''Table 701.03-1 S'', ''A 1'', ''B 2'', [], ''C 3'', ''D 4'']]"
  by code_simp

theorem rebuild_chunk_invariant_witness:
  "map (\<lambda>c. (ch_page_start c, ch_page_end c, ch_chunk_kind c, ch_table_row_index c))
     (st_chunks (rebuild_chunks demo_digest demo_store)) =
     [(2, 2, Some ''content'', None), (2, 2, Some ''content'', None),
      (2, 2, Some ''table_row'', Some 0), (2, 2, Some ''table_row'', Some 1),
      (2, 2, Some ''table_row'', Some 2), (2, 2, Some ''table_row'', Some 4),
      (2, 2, Some ''table_row'', Some 5)]"
  using rebuild_chunk_invariant [of demo_digest demo_store] demo_rebuild_eval by simp

theorem table_uid_stable_witness:
  "stable_table_uid demo_digest 7 ''s.pdf'' 2 1 (replicate 25 ''r'' @ [''a'']) =
   stable_table_uid demo_digest 7 ''s.pdf'' 2 1 (replicate 25 ''r'' @ [''b'']) \<and>
   st_tables (rebuild_chunks demo_digest demo_store_stale) =
     st_tables (rebuild_chunks demo_digest demo_store) \<and>
   map tb_table_uid (st_tables (rebuild_chunks demo_digest demo_store)) =
     [stable_table_uid demo_digest 7 ''s.pdf'' 2 1
        [''Table 701.03-1 S'', ''A 1'', ''B 2'', [], ''C 3'', ''D 4'']]"
proof -
  have a: "take 25 (replicate 25 ''r'' @ [''a'']) = take 25 (replicate 25 ''r'' @ [''b''])"
    by simp
  have b: "st_documents demo_store_stale = st_documents demo_store \<and>
           st_pages demo_store_stale = st_pages demo_store"
    by (simp add: demo_store_stale_def)
  from table_uid_stable
         [of "replicate 25 ''r'' @ [''a'']" "replicate 25 ''r'' @ [''b'']" demo_digest 7 "''s.pdf''"
             2 1 demo_store_stale demo_store]
  have "stable_table_uid demo_digest 7 ''s.pdf'' 2 1 (replicate 25 ''r'' @ [''a'']) =
        stable_table_uid demo_digest 7 ''s.pdf'' 2 1 (replicate 25 ''r'' @ [''b''])"
    and "st_tables (rebuild_chunks demo_digest demo_store_stale) =
         st_tables (rebuild_chunks demo_digest demo_store)"
    using a b by blast+
  then show ?thesis using demo_rebuild_eval by simp
qed

text \<open>
  The equation score is a sum of doubles.  A line with an equation sign, a fraction and
  four digits scores \<open>0.25 + 0.1 + 0.1\<close>, which as a double lies just below the threshold
  \<open>0.45\<close> of an equation chunk.
\<close>

lemma equation_score_just_below_threshold:
  "line_equation_score ([le_sign] @ '' 1234/5678 streets streets streets'') =
     (8106479329266892, - 54) \<and>
   double_of_ratio 45 100 = (8106479329266893, - 54) \<and>
   \<not> dle (double_of_ratio 45 100)
         (equation_score ([le_sign] @ '' 1234/5678 streets streets streets''))"
  by code_simp

section \<open>Properties of the ask path\<close>

subsection \<open>Reaching synthesis\<close>

text \<open>
  Synthesis is reached only in answer mode, with at least one hit and a retrieval
  confidence other than weak; the hits are the arranged hits of the retrieval stage.
\<close>

lemma before_synthesis_continue:
  assumes "before_synthesis env q mode k conf hits0 = Inr (Continue hits)"
  shows "hits \<noteq> []" and "conf \<noteq> ''weak''" and "hits = arrange_hits q mode k hits0"
  using assms
  by (auto simp add: before_synthesis_def Let_def
      split: option.splits if_splits sum.splits)

lemma ask_question_synthesis:
  assumes "e_retrieval env q scope mp_ids k mode = Inr (Retrieved hits0 conf)"
    and "before_synthesis env q mode k conf hits0 = Inr (Continue hits)"
  shows "ask_question env q scope mp_ids k mode = synthesis env q conf hits"
  using assms by (simp add: ask_question_def ask_question_inner_def answer_stage_def)

lemma llm_fallback_answer_medium:
  assumes "hits \<noteq> []"
  shows "ar_confidence (llm_fallback_answer hits) = ''medium''"
    and "ar_hits (llm_fallback_answer hits) = [hd hits]"
  using assms
  by (cases hits; simp add: llm_fallback_answer_def result_def Let_def)+

text \<open>
  Without hits the fallback answer has the confidence \<^verbatim>\<open>low\<close>, which is none of the three
  levels of a response.  By \<open>before_synthesis_continue\<close> the orchestrator never calls the
  fallback without hits.
\<close>

lemma llm_fallback_answer_no_hits:
  "llm_fallback_answer [] = result ''low'' ''Insufficient Evidence.'' []"
  by (simp add: llm_fallback_answer_def)

lemma weak_response_weak:
  "ar_confidence (weak_response hits q) = ''weak''"
  by (simp add: weak_response_def result_def Let_def split: list.splits)

lemma weak_response_hits:
  "ar_hits (weak_response hits q) = [] \<or> ar_hits (weak_response hits q) = take 1 hits"
  by (cases hits) (simp_all add: weak_response_def result_def Let_def)

text \<open>
  Without hits (and without one of the answers that come straight after retrieval) the
  answer stage ends before synthesis, in a response of confidence weak that cites nothing.
\<close>

lemma no_hits_weak:
  assumes "early_answer q mode conf hits0 = None"
    and "arrange_hits q mode k hits0 = []"
  shows "\<exists>r. before_synthesis env q mode k conf hits0 = Inr (Return r)
             \<and> ar_confidence r = ''weak'' \<and> ar_hits r = []"
  using assms
  by (simp add: before_synthesis_def Let_def section_intent_answer_def table_token_answer_def
        weak_response_def result_def)

subsection \<open>The guard against numbers\<close>

text \<open>
  C1.  The guard against hallucinated numbers, as the code has it.  Take an answer-mode
  query that reaches synthesis with a content chunk among its hits; let the model be
  available, let the time limit gate pass, and take the answer before the guard (the
  reply of the model, stripped, or the deterministic answer).  If the query mentions days
  (its lower-cased text matches the pattern of the guard), the answer holds at least one
  integer and none of its integers occurs in the lower-cased source block, the
  orchestrator discards the answer and returns the fallback answer of the single first
  hit, at confidence medium.  If the query does not mention days, the answer is not
  checked: it is returned, cleaned up, with all hits.
\<close>

theorem numeric_guard_discards:
  assumes retr: "e_retrieval env q scope mp_ids k mode = Inr (Retrieved hits0 conf)"
    and reach: "before_synthesis env q mode k conf hits0 = Inr (Continue hits)"
    and pref: "preferred_hits hits \<noteq> []"
    and llm: "e_get_llm env = Inr ()"
    and gate: "is_time_limit_question q \<Longrightarrow> has_payment_days_phrase (sources_block q hits)"
    and draft: "draft_answer env q (prompt_hits q hits) (sources_block q hits) = Inr answer"
  shows "(found days_question_rx no_flags (lower q)
          \<and> nums_in_answer answer \<noteq> []
          \<and> (\<forall>n \<in> set (nums_in_answer answer). \<not> contains (lower (sources_block q hits)) n)
          \<longrightarrow> ask_question env q scope mp_ids k mode = llm_fallback_answer hits
              \<and> ar_confidence (ask_question env q scope mp_ids k mode) = ''medium''
              \<and> ar_hits (ask_question env q scope mp_ids k mode) = [hd hits])
         \<and> (\<not> found days_question_rx no_flags (lower q)
            \<longrightarrow> ask_question env q scope mp_ids k mode =
                  result (safe_confidence conf answer)
                    (polish_answer_text (strip_answer_metadata (make_answer_user_friendly answer) q))
                    hits)"
proof (intro conjI impI)
  assume a: "found days_question_rx no_flags (lower q)
             \<and> nums_in_answer answer \<noteq> []
             \<and> (\<forall>n \<in> set (nums_in_answer answer). \<not> contains (lower (sources_block q hits)) n)"
  then have trips: "numeric_guard_trips q (sources_block q hits) answer"
    by (simp add: numeric_guard_trips_def Let_def list_ex_iff)
  have "try_block env q (prompt_hits q hits) (sources_block q hits) hits =
          Inr (Returned (llm_fallback_answer hits))"
    using llm gate draft trips by (auto simp add: try_block_def)
  then have "synthesis env q conf hits = llm_fallback_answer hits"
    using pref by (simp add: synthesis_def Let_def)
  then show eq: "ask_question env q scope mp_ids k mode = llm_fallback_answer hits"
    using ask_question_synthesis [OF retr reach] by simp
  have ne: "hits \<noteq> []" using before_synthesis_continue(1) [OF reach] .
  show "ar_confidence (ask_question env q scope mp_ids k mode) = ''medium''"
    using eq llm_fallback_answer_medium(1) [OF ne] by simp
  show "ar_hits (ask_question env q scope mp_ids k mode) = [hd hits]"
    using eq llm_fallback_answer_medium(2) [OF ne] by simp
next
  assume "\<not> found days_question_rx no_flags (lower q)"
  then have "\<not> numeric_guard_trips q (sources_block q hits) answer"
    by (simp add: numeric_guard_trips_def)
  then have "try_block env q (prompt_hits q hits) (sources_block q hits) hits = Inr (Draft answer)"
    using llm gate draft by (auto simp add: try_block_def)
  then have "synthesis env q conf hits =
               result (safe_confidence conf answer)
                 (polish_answer_text (strip_answer_metadata (make_answer_user_friendly answer) q))
                 hits"
    using pref by (simp add: synthesis_def Let_def)
  then show "ask_question env q scope mp_ids k mode =
               result (safe_confidence conf answer)
                 (polish_answer_text (strip_answer_metadata (make_answer_user_friendly answer) q))
                 hits"
    using ask_question_synthesis [OF retr reach] by simp
qed

theorem numeric_guard_discards_witness:
  "ask_question (demo_env (Inr (Retrieved [pay_hit] ''medium'')) (Inr ()) (Inr ''Within 45 days.''))
     ''within how many days must payment be made'' ''all'' None 6 ''answer'' =
     result ''medium'' ''Pay within 30 days after receipt of payment. [1]'' [pay_hit]
   \<and> nums_in_answer ''Within 45 days.'' = [''45'']"
proof -
  let ?env = "demo_env (Inr (Retrieved [pay_hit] ''medium'')) (Inr ()) (Inr ''Within 45 days.'')"
  let ?q = "''within how many days must payment be made''"
  have retr: "e_retrieval ?env ?q ''all'' None 6 ''answer'' = Inr (Retrieved [pay_hit] ''medium'')"
    by (simp add: demo_env_def)
  have reach: "before_synthesis ?env ?q ''answer'' 6 ''medium'' [pay_hit] = Inr (Continue [pay_hit])"
    by code_simp
  have pref: "preferred_hits [pay_hit] \<noteq> []"
    by code_simp
  have llm: "e_get_llm ?env = Inr ()"
    by (simp add: demo_env_def)
  have gate: "has_payment_days_phrase (sources_block ?q [pay_hit])"
    by code_simp
  have draft: "draft_answer ?env ?q (prompt_hits ?q [pay_hit]) (sources_block ?q [pay_hit]) =
                 Inr ''Within 45 days.''"
    by code_simp
  have days: "found days_question_rx no_flags (lower ?q)"
    by code_simp
  have nums: "nums_in_answer ''Within 45 days.'' = [''45'']"
    by code_simp
  have absent: "\<not> contains (lower (sources_block ?q [pay_hit])) ''45''"
    by code_simp
  have fallback: "llm_fallback_answer [pay_hit] =
                    result ''medium'' ''Pay within 30 days after receipt of payment. [1]'' [pay_hit]"
    by code_simp
  from numeric_guard_discards [OF retr reach pref llm gate draft] days nums absent
  have "ask_question ?env ?q ''all'' None 6 ''answer'' = llm_fallback_answer [pay_hit]"
    by simp
  then show ?thesis using fallback nums by simp
qed

text \<open>
  A query that does not mention days is not checked: the answer of the model is returned
  although its only integer, 9, occurs nowhere in the source block.
\<close>

theorem numeric_guard_skips_other_queries:
  "ask_question (demo_env (Inr (Retrieved [lift_hit] ''medium'')) (Inr ())
                   (Inr ''The minimum lift thickness is 9 inches.''))
     ''minimum lift thickness'' ''all'' None 6 ''answer'' =
     result ''medium'' ''The minimum lift thickness is 9 inches.'' [lift_hit]
   \<and> nums_in_answer ''The minimum lift thickness is 9 inches.'' = [''9'']
   \<and> \<not> contains (lower (sources_block ''minimum lift thickness'' [lift_hit])) ''9''"
proof -
  have "ask_question (demo_env (Inr (Retrieved [lift_hit] ''medium'')) (Inr ())
                        (Inr ''The minimum lift thickness is 9 inches.''))
          ''minimum lift thickness'' ''all'' None 6 ''answer'' =
          result ''medium'' ''The minimum lift thickness is 9 inches.'' [lift_hit]"
    by code_simp
  moreover have "nums_in_answer ''The minimum lift thickness is 9 inches.'' = [''9'']"
    by code_simp
  moreover have "\<not> contains (lower (sources_block ''minimum lift thickness'' [lift_hit])) ''9''"
    by code_simp
  ultimately show ?thesis by simp
qed

text \<open>
  The guard looks for the integers of the answer as substrings of the source block, and it
  is content with one of them: for a question with a time limit, the answer ``Within 3
  days.'' passes, since the sources say 30 days.
\<close>

lemma numeric_guard_passes_part_of_a_number:
  "ask_question (demo_env (Inr (Retrieved [pay_hit] ''medium'')) (Inr ()) (Inr ''Within 3 days.''))
     ''within how many days must payment be made'' ''all'' None 6 ''answer'' =
     result ''medium'' ''Within 3 days.'' [pay_hit]"
  by code_simp

subsection \<open>Failure of the model\<close>

text \<open>
  C2.  Fallback when the model fails.  Let a query reach synthesis with a content chunk
  among its hits, and let the model call raise: either \<^verbatim>\<open>get_llm\<close> raises, or \<^verbatim>\<open>llm.chat\<close> is
  called (the time limit gate passes and there is no deterministic answer) and raises.
  Then the orchestrator returns the fallback answer: there is at least one hit, the
  response cites the first hit alone, and its confidence is medium, one of the three
  levels strong, medium and weak.  When there are no hits, the answer stage never comes
  to call the model: it has ended before in a response of confidence weak.
\<close>

theorem llm_error_fallback:
  assumes retr: "e_retrieval env q scope mp_ids k mode = Inr (Retrieved hits0 conf)"
    and reach: "before_synthesis env q mode k conf hits0 = Inr (Continue hits)"
    and pref: "preferred_hits hits \<noteq> []"
    and fail: "e_get_llm env = Inl err
               \<or> (e_get_llm env = Inr ()
                  \<and> (is_time_limit_question q \<longrightarrow> has_payment_days_phrase (sources_block q hits))
                  \<and> deterministic_answer q (prompt_hits q hits) = []
                  \<and> e_chat env (user_prompt q (sources_block q hits)) = Inl err)"
  shows "ask_question env q scope mp_ids k mode = llm_fallback_answer hits
         \<and> hits \<noteq> []
         \<and> ar_confidence (ask_question env q scope mp_ids k mode) = ''medium''
         \<and> ar_hits (ask_question env q scope mp_ids k mode) = [hd hits]
         \<and> ar_confidence (ask_question env q scope mp_ids k mode) \<in> {''strong'', ''medium'', ''weak''}
         \<and> (\<forall>c hs. early_answer q mode c hs = None \<and> arrange_hits q mode k hs = [] \<longrightarrow>
                (\<exists>r. before_synthesis env q mode k c hs = Inr (Return r)
                     \<and> ar_confidence r = ''weak'' \<and> ar_hits r = []))"
proof -
  have "try_block env q (prompt_hits q hits) (sources_block q hits) hits = Inl err"
    using fail by (auto simp add: try_block_def draft_answer_def Let_def)
  then have "synthesis env q conf hits = llm_fallback_answer hits"
    using pref by (simp add: synthesis_def Let_def)
  then have eq: "ask_question env q scope mp_ids k mode = llm_fallback_answer hits"
    using ask_question_synthesis [OF retr reach] by simp
  have ne: "hits \<noteq> []" using before_synthesis_continue(1) [OF reach] .
  have "ar_confidence (ask_question env q scope mp_ids k mode) = ''medium''"
    and "ar_hits (ask_question env q scope mp_ids k mode) = [hd hits]"
    using eq llm_fallback_answer_medium [OF ne] by simp_all
  then show ?thesis using eq ne no_hits_weak by blast
qed

theorem llm_error_fallback_witness:
  "ask_question (demo_env (Inr (Retrieved [lift_hit] ''medium'')) (Inr ())
                   (Inl (LLMError ''LLM call failed (groq): timeout'')))
     ''minimum lift thickness'' ''all'' None 6 ''answer'' =
     result ''medium'' ''Place each lift at least 2 inches thick. [1]'' [lift_hit]"
proof -
  let ?env = "demo_env (Inr (Retrieved [lift_hit] ''medium'')) (Inr ())
                (Inl (LLMError ''LLM call failed (groq): timeout''))"
  let ?q = "''minimum lift thickness''"
  have retr: "e_retrieval ?env ?q ''all'' None 6 ''answer'' = Inr (Retrieved [lift_hit] ''medium'')"
    by (simp add: demo_env_def)
  have reach: "before_synthesis ?env ?q ''answer'' 6 ''medium'' [lift_hit] = Inr (Continue [lift_hit])"
    by code_simp
  have pref: "preferred_hits [lift_hit] \<noteq> []"
    by code_simp
  have no_limit: "\<not> is_time_limit_question ?q"
    by code_simp
  have no_det: "deterministic_answer ?q (prompt_hits ?q [lift_hit]) = []"
    by code_simp
  have fail: "e_get_llm ?env = Inl (LLMError ''LLM call failed (groq): timeout'')
              \<or> (e_get_llm ?env = Inr ()
                 \<and> (is_time_limit_question ?q \<longrightarrow> has_payment_days_phrase (sources_block ?q [lift_hit]))
                 \<and> deterministic_answer ?q (prompt_hits ?q [lift_hit]) = []
                 \<and> e_chat ?env (user_prompt ?q (sources_block ?q [lift_hit])) =
                     Inl (LLMError ''LLM call failed (groq): timeout''))"
    using no_limit no_det by (simp add: demo_env_def)
  have fallback: "llm_fallback_answer [lift_hit] =
                    result ''medium'' ''Place each lift at least 2 inches thick. [1]'' [lift_hit]"
    by code_simp
  from llm_error_fallback [OF retr reach pref fail]
  have "ask_question ?env ?q ''all'' None 6 ''answer'' = llm_fallback_answer [lift_hit]"
    by simp
  then show ?thesis using fallback by simp
qed

subsection \<open>Containment of errors\<close>



subsection \<open>Citation at weak retrieval\<close>

text \<open>
  C4.  What the weak response cites.  It is enough that one token of the query occurs
  somewhere in the lower-cased snippet of the first hit (inside a longer word, too): then
  the weak response cites that hit, whatever the token overlap of query and snippet is.
\<close>

theorem weak_response_cites_on_one_token:
  assumes "tok \<in> set (tokenize_relevance q)"
    and "contains (lower (h_snippet h)) tok"
    and "strip (h_snippet h) \<noteq> []"
  shows "weak_response (h # hs) q =
           result ''weak'' (''Closest match from NJDOT manuals: '' @ strip (h_snippet h) @ '' [1]'') [h]"
proof -
  have "tokenize_relevance q \<noteq> []" using assms(1) by auto
  moreover have "list_ex (contains (lower (h_snippet h))) (tokenize_relevance q)"
    using assms(1,2) by (auto simp add: list_ex_iff)
  ultimately have "is_relevant_hit q h"
    by (simp add: is_relevant_hit_def Let_def)
  then show ?thesis using assms(3) by (simp add: weak_response_def Let_def)
qed

text \<open>
  The query ``age'' and the snippet ``Drainage pipe'' share no token and no section
  number; the token of the query occurs inside the word ``drainage'', and the hit is cited.
\<close>

theorem weak_response_cites_on_one_token_witness:
  "weak_response [drain_hit] ''age'' =
     result ''weak'' ''Closest match from NJDOT manuals: Drainage pipe [1]'' [drain_hit]
   \<and> token_overlap ''age'' (lower (h_snippet drain_hit)) = []
   \<and> extract_section_pattern ''age'' = None
   \<and> ask_question (demo_env (Inr (Retrieved [drain_hit] ''weak'')) (Inr ()) (Inr []))
        ''age'' ''all'' None 6 ''answer'' =
        result ''weak'' ''Closest match from NJDOT manuals: Drainage pipe [1]'' [drain_hit]"
proof -
  have tok: "''age'' \<in> set (tokenize_relevance ''age'')"
    by code_simp
  have sub: "contains (lower (h_snippet drain_hit)) ''age''"
    by code_simp
  have snippet: "strip (h_snippet drain_hit) = ''Drainage pipe''"
    by code_simp
  from weak_response_cites_on_one_token [OF tok sub, of "[]"] snippet
  have "weak_response [drain_hit] ''age'' =
          result ''weak'' ''Closest match from NJDOT manuals: Drainage pipe [1]'' [drain_hit]"
    by simp
  moreover have "token_overlap ''age'' (lower (h_snippet drain_hit)) = []"
    by code_simp
  moreover have "extract_section_pattern ''age'' = None"
    by code_simp
  moreover have "ask_question (demo_env (Inr (Retrieved [drain_hit] ''weak'')) (Inr ()) (Inr []))
                   ''age'' ''all'' None 6 ''answer'' =
                   result ''weak'' ''Closest match from NJDOT manuals: Drainage pipe [1]'' [drain_hit]"
    by code_simp
  ultimately show ?thesis by simp
qed

end
